theory Spec2Isabelle
  imports Main "HOL-Library.Word" "HOL-Library.Monad_Syntax"
begin

section \<open>The C wrapper of executorch\_flutter: data model\<close>

text \<open>
  The embedding follows \<^verbatim>\<open>src/c_wrapper\<close>. Machine integers are words read with
  \<open>sint\<close> or \<open>unat\<close>; \<^verbatim>\<open>size_t\<close> is taken as 64 bits wide (the LP64 targets of
  the plugin), so the cast \<^verbatim>\<open>(size_t)dims[i]\<close> keeps all 64 bits. A nullable pointer
  is an \<open>option\<close> (\<open>None\<close> is \<^verbatim>\<open>NULL\<close>). A fixed C array whose index the code
  computes (\<^verbatim>\<open>dims\<close>, \<^verbatim>\<open>inputs\<close>, \<^verbatim>\<open>outputs\<close>) is a function from the
  index, read through an explicit bound: a read at or beyond the array's size has no defined
  result in C, and the model returns \<open>None\<close> for the whole call there. A \<^verbatim>\<open>char\<close>
  buffer is the list of its bytes.
\<close>

type_synonym int32_t = "32 word"
type_synonym int64_t = "64 word"
type_synonym size_t = "64 word"
type_synonym byte = "8 word"
type_synonym addr = nat
type_synonym ptr = "addr option"

abbreviation (input) ET_FLUTTER_MAX_TENSOR_DIMS :: nat where "ET_FLUTTER_MAX_TENSOR_DIMS \<equiv> 8"
abbreviation (input) ET_FLUTTER_MAX_INPUTS :: nat where "ET_FLUTTER_MAX_INPUTS \<equiv> 16"
abbreviation (input) ET_FLUTTER_MAX_OUTPUTS :: nat where "ET_FLUTTER_MAX_OUTPUTS \<equiv> 16"
abbreviation (input) ET_FLUTTER_ERROR_MESSAGE_MAX_LEN :: nat where "ET_FLUTTER_ERROR_MESSAGE_MAX_LEN \<equiv> 256"
abbreviation (input) ET_FLUTTER_TENSOR_NAME_MAX_LEN :: nat where "ET_FLUTTER_TENSOR_NAME_MAX_LEN \<equiv> 64"

abbreviation (input) NUL :: char where "NUL \<equiv> CHR 0x00"

datatype ETFlutterErrorCode =
    ET_FLUTTER_SUCCESS
  | ET_FLUTTER_ERROR_MODEL_LOAD
  | ET_FLUTTER_ERROR_INFERENCE
  | ET_FLUTTER_ERROR_VALIDATION
  | ET_FLUTTER_ERROR_MEMORY
  | ET_FLUTTER_ERROR_IO
  | ET_FLUTTER_ERROR_PLATFORM
  | ET_FLUTTER_ERROR_INVALID_HANDLE
  | ET_FLUTTER_ERROR_INVALID_ARGUMENT

text \<open>
  \<^verbatim>\<open>ETFlutterDataType\<close> is a C enum: the four enumerators are the values 0 to 3, and a
  variable of the type can hold any other integer, which the \<^verbatim>\<open>default\<close> branches of
  the code receive.
\<close>

type_synonym ETFlutterDataType = "32 word"

abbreviation (input) ET_FLUTTER_DTYPE_FLOAT32 :: ETFlutterDataType where "ET_FLUTTER_DTYPE_FLOAT32 \<equiv> 0"
abbreviation (input) ET_FLUTTER_DTYPE_INT32 :: ETFlutterDataType where "ET_FLUTTER_DTYPE_INT32 \<equiv> 1"
abbreviation (input) ET_FLUTTER_DTYPE_INT8 :: ETFlutterDataType where "ET_FLUTTER_DTYPE_INT8 \<equiv> 2"
abbreviation (input) ET_FLUTTER_DTYPE_UINT8 :: ETFlutterDataType where "ET_FLUTTER_DTYPE_UINT8 \<equiv> 3"

record ETFlutterError =
  code :: ETFlutterErrorCode
  message :: string

record ETFlutterTensorShape =
  num_dims :: int32_t
  dims :: "nat \<Rightarrow> int64_t"

record ETFlutterTensorData =
  shape :: ETFlutterTensorShape
  dtype :: ETFlutterDataType
  data :: ptr
  data_size :: size_t
  name :: string

section \<open>Rendering of numbers in messages\<close>

definition digit_char :: "nat \<Rightarrow> char" where
  "digit_char d = char_of (48 + d mod 10)"

function show_nat :: "nat \<Rightarrow> string" where
  "show_nat n = (if n < 10 then [digit_char n] else show_nat (n div 10) @ [digit_char (n mod 10)])"
  by pat_completeness auto
termination
  by (relation "measure id") auto

declare show_nat.simps [simp del]

definition show_int :: "int \<Rightarrow> string" where
  "show_int i = (if i < 0 then CHR ''-'' # show_nat (nat (- i)) else show_nat (nat i))"

section \<open>error\_mapping.c\<close>

text \<open>The text a C string buffer holds: the bytes before the first NUL.\<close>

definition c_str :: "string \<Rightarrow> string" where
  "c_str buf = takeWhile (\<lambda>c. c \<noteq> NUL) buf"

text \<open>
  \<^verbatim>\<open>vsnprintf(buf, n, format, args)\<close>, given the text the format and its arguments
  render to: at most \<open>n - 1\<close> bytes of it are written, then a NUL; the rest of the buffer
  keeps its bytes.
\<close>

definition vsnprintf :: "string \<Rightarrow> nat \<Rightarrow> string \<Rightarrow> string" where
  "vsnprintf buf n formatted =
     (if n = 0 then buf
      else (let s = take (n - 1) (c_str formatted) @ [NUL] in s @ drop (length s) buf))"

definition set_error_fields :: "ETFlutterError \<Rightarrow> ETFlutterErrorCode \<Rightarrow> string \<Rightarrow> ETFlutterError" where
  "set_error_fields e c formatted =
     (let e1 = e\<lparr>code := c\<rparr>;
          e2 = e1\<lparr>message := vsnprintf (message e1) ET_FLUTTER_ERROR_MESSAGE_MAX_LEN formatted\<rparr>
      in e2\<lparr>message := (message e2)[ET_FLUTTER_ERROR_MESSAGE_MAX_LEN - 1 := NUL]\<rparr>)"

definition et_flutter_set_error ::
  "ETFlutterError option \<Rightarrow> ETFlutterErrorCode \<Rightarrow> string \<Rightarrow> ETFlutterError option" where
  "et_flutter_set_error error c formatted =
     (case error of None \<Rightarrow> None | Some e \<Rightarrow> Some (set_error_fields e c formatted))"

definition clear_error_fields :: "ETFlutterError \<Rightarrow> ETFlutterError" where
  "clear_error_fields e = e\<lparr>code := ET_FLUTTER_SUCCESS, message := (message e)[0 := NUL]\<rparr>"

definition et_flutter_clear_error :: "ETFlutterError option \<Rightarrow> ETFlutterError option" where
  "et_flutter_clear_error error =
     (case error of None \<Rightarrow> None | Some e \<Rightarrow> Some (clear_error_fields e))"

section \<open>executorch\_flutter\_wrapper.c\<close>

definition et_flutter_dtype_size :: "ETFlutterDataType \<Rightarrow> size_t" where
  "et_flutter_dtype_size dt =
     (if dt = ET_FLUTTER_DTYPE_FLOAT32 then 4
      else if dt = ET_FLUTTER_DTYPE_INT32 then 4
      else if dt = ET_FLUTTER_DTYPE_INT8 then 1
      else if dt = ET_FLUTTER_DTYPE_UINT8 then 1
      else 0)"

text \<open>
  The loop \<^verbatim>\<open>for (i = 0; i < num_dims; i++) count *= (size_t)dims[i]\<close>, over the
  indices it visits. The product wraps in \<^verbatim>\<open>size_t\<close>.
\<close>

fun mul_dims :: "(nat \<Rightarrow> int64_t) \<Rightarrow> nat list \<Rightarrow> size_t \<Rightarrow> size_t option" where
  "mul_dims ds [] acc = Some acc"
| "mul_dims ds (i # is) acc =
     (if i < ET_FLUTTER_MAX_TENSOR_DIMS then mul_dims ds is (acc * ds i) else None)"

definition et_flutter_shape_element_count :: "ETFlutterTensorShape option \<Rightarrow> size_t option" where
  "et_flutter_shape_element_count shp =
     (case shp of
        None \<Rightarrow> Some 0
      | Some s \<Rightarrow>
          if sint (num_dims s) \<le> 0 then Some 0
          else mul_dims (dims s) [0..<nat (sint (num_dims s))] 1)"

section \<open>tensor\_utils.c\<close>

definition et_flutter_tensor_data_size :: "ETFlutterTensorData option \<Rightarrow> size_t option" where
  "et_flutter_tensor_data_size tensor =
     (case tensor of
        None \<Rightarrow> Some 0
      | Some t \<Rightarrow>
          do {
            total_elements \<leftarrow> mul_dims (dims (shape t)) [0..<nat (sint (num_dims (shape t)))] 1;
            Some (total_elements * et_flutter_dtype_size (dtype t))
          })"

definition et_flutter_tensor_validate ::
  "ETFlutterTensorData option \<Rightarrow> ETFlutterError option
     \<Rightarrow> (ETFlutterErrorCode \<times> ETFlutterError option) option" where
  "et_flutter_tensor_validate tensor error =
     (case tensor of
        None \<Rightarrow>
          Some (ET_FLUTTER_ERROR_INVALID_ARGUMENT,
                et_flutter_set_error error ET_FLUTTER_ERROR_INVALID_ARGUMENT ''Tensor pointer is NULL'')
      | Some t \<Rightarrow>
          if sint (num_dims (shape t)) < 1
             \<or> sint (num_dims (shape t)) > int ET_FLUTTER_MAX_TENSOR_DIMS
          then Some (ET_FLUTTER_ERROR_VALIDATION,
                et_flutter_set_error error ET_FLUTTER_ERROR_VALIDATION
                  (''Invalid number of dimensions: '' @ show_int (sint (num_dims (shape t)))
                     @ '' (must be 1-'' @ show_nat ET_FLUTTER_MAX_TENSOR_DIMS @ '')''))
          else
            (case find (\<lambda>i. sint (dims (shape t) i) \<le> 0) [0..<nat (sint (num_dims (shape t)))] of
               Some i \<Rightarrow>
                 Some (ET_FLUTTER_ERROR_VALIDATION,
                   et_flutter_set_error error ET_FLUTTER_ERROR_VALIDATION
                     (''Invalid dimension size at index '' @ show_nat i @ '': ''
                        @ show_int (sint (dims (shape t) i)) @ '' (must be > 0)''))
             | None \<Rightarrow>
                 if data t = None
                 then Some (ET_FLUTTER_ERROR_INVALID_ARGUMENT,
                   et_flutter_set_error error ET_FLUTTER_ERROR_INVALID_ARGUMENT
                     ''Tensor data pointer is NULL'')
                 else
                   do {
                     expected_size \<leftarrow> et_flutter_tensor_data_size tensor;
                     if data_size t \<noteq> expected_size
                     then Some (ET_FLUTTER_ERROR_VALIDATION,
                       et_flutter_set_error error ET_FLUTTER_ERROR_VALIDATION
                         (''Tensor data size mismatch: got '' @ show_nat (unat (data_size t))
                            @ '' bytes, expected '' @ show_nat (unat expected_size) @ '' bytes''))
                     else Some (ET_FLUTTER_SUCCESS, et_flutter_clear_error error)
                   }))"

definition et_flutter_validate_tensor ::
  "ETFlutterTensorData option \<Rightarrow> ETFlutterError option
     \<Rightarrow> (ETFlutterErrorCode \<times> ETFlutterError option) option" where
  "et_flutter_validate_tensor tensor error = et_flutter_tensor_validate tensor error"

definition strncpy :: "string \<Rightarrow> string \<Rightarrow> nat \<Rightarrow> string" where
  "strncpy dst src n =
     (let s = take n (c_str src) in s @ replicate (n - length s) NUL @ drop n dst)"

section \<open>Memory\<close>

text \<open>
  The heap holds the blocks \<^verbatim>\<open>malloc\<close> hands out and the buffers the host and the
  engine own: a block is a byte buffer or one \<^verbatim>\<open>ETFlutterTensorData\<close> struct. An address
  is an index into the list of blocks, \<^verbatim>\<open>malloc\<close> appends a block (so the address is
  fresh) and \<^verbatim>\<open>free\<close> empties its slot. Whether a call of \<^verbatim>\<open>malloc\<close> succeeds is
  the environment's choice: \<open>malloc_script\<close> lists the outcomes of the calls to come
  (\<open>False\<close> is a \<^verbatim>\<open>NULL\<close> result), and calls beyond the script succeed. Freeing or
  reading through a pointer that holds no block of the right kind, reading or writing past
  the end of a buffer, and \<^verbatim>\<open>memcpy\<close> of a buffer onto itself are undefined in C and
  give \<open>None\<close>.
\<close>

datatype block = Bytes "byte list" | TensorStruct ETFlutterTensorData

type_synonym heap = "block option list"

record world =
  mem :: heap
  malloc_script :: "bool list"
  engine_calls :: nat

definition lookup :: "heap \<Rightarrow> addr \<Rightarrow> block option" where
  "lookup h a = (if a < length h then h ! a else None)"

definition malloc :: "block \<Rightarrow> world \<Rightarrow> ptr \<times> world" where
  "malloc b w =
     (case malloc_script w of
        [] \<Rightarrow> (Some (length (mem w)), w\<lparr>mem := mem w @ [Some b]\<rparr>)
      | ok # rest \<Rightarrow>
          if ok then (Some (length (mem w)), w\<lparr>mem := mem w @ [Some b], malloc_script := rest\<rparr>)
          else (None, w\<lparr>malloc_script := rest\<rparr>))"

definition free :: "ptr \<Rightarrow> heap \<Rightarrow> heap option" where
  "free p h =
     (case p of
        None \<Rightarrow> Some h
      | Some a \<Rightarrow> if lookup h a \<noteq> None then Some (h[a := None]) else None)"

definition read_struct :: "heap \<Rightarrow> ptr \<Rightarrow> ETFlutterTensorData option" where
  "read_struct h p =
     (case p of
        None \<Rightarrow> None
      | Some a \<Rightarrow> (case lookup h a of Some (TensorStruct t) \<Rightarrow> Some t | _ \<Rightarrow> None))"

definition write_struct :: "heap \<Rightarrow> ptr \<Rightarrow> ETFlutterTensorData \<Rightarrow> heap option" where
  "write_struct h p t =
     (case p of
        None \<Rightarrow> None
      | Some a \<Rightarrow>
          (case lookup h a of Some (TensorStruct old) \<Rightarrow> Some (h[a := Some (TensorStruct t)]) | _ \<Rightarrow> None))"

definition read_bytes :: "heap \<Rightarrow> ptr \<Rightarrow> nat \<Rightarrow> byte list option" where
  "read_bytes h p n =
     (case p of
        None \<Rightarrow> None
      | Some a \<Rightarrow>
          (case lookup h a of
             Some (Bytes bs) \<Rightarrow> if n \<le> length bs then Some (take n bs) else None
           | _ \<Rightarrow> None))"

definition write_bytes :: "heap \<Rightarrow> ptr \<Rightarrow> byte list \<Rightarrow> heap option" where
  "write_bytes h p bs =
     (case p of
        None \<Rightarrow> None
      | Some a \<Rightarrow>
          (case lookup h a of
             Some (Bytes old) \<Rightarrow>
               if length bs \<le> length old
               then Some (h[a := Some (Bytes (bs @ drop (length bs) old))])
               else None
           | _ \<Rightarrow> None))"

definition memcpy :: "heap \<Rightarrow> ptr \<Rightarrow> ptr \<Rightarrow> nat \<Rightarrow> heap option" where
  "memcpy h dst src n =
     (if dst = src then None
      else do { bs \<leftarrow> read_bytes h src n; write_bytes h dst bs })"

section \<open>tensor\_utils.c: copy\<close>

text \<open>
  The two structs are taken by value and the destination struct is returned; the data
  buffers they point to are in the heap.
\<close>

definition et_flutter_tensor_copy ::
  "ETFlutterTensorData option \<Rightarrow> ETFlutterTensorData option \<Rightarrow> ETFlutterError option \<Rightarrow> heap
     \<Rightarrow> (ETFlutterErrorCode \<times> ETFlutterTensorData option \<times> ETFlutterError option \<times> heap) option" where
  "et_flutter_tensor_copy src dst error h =
     (case (src, dst) of
        (Some s, Some d) \<Rightarrow>
          do {
            (result, error1) \<leftarrow> et_flutter_tensor_validate src error;
            if result \<noteq> ET_FLUTTER_SUCCESS then Some (result, dst, error1, h)
            else do {
              let d1 = d\<lparr>shape := shape s, dtype := dtype s, data_size := data_size s\<rparr>;
              h1 \<leftarrow> (if data d1 \<noteq> None \<and> data s \<noteq> None
                     then memcpy h (data d1) (data s) (unat (data_size s))
                     else Some h);
              let d2 = (if c_str (name s) \<noteq> []
                        then d1\<lparr>name := (strncpy (name d1) (name s) (ET_FLUTTER_TENSOR_NAME_MAX_LEN - 1))
                                          [ET_FLUTTER_TENSOR_NAME_MAX_LEN - 1 := NUL]\<rparr>
                        else d1\<lparr>name := (name d1)[0 := NUL]\<rparr>);
              Some (ET_FLUTTER_SUCCESS, Some d2, et_flutter_clear_error error1, h1)
            }
          }
      | _ \<Rightarrow>
          Some (ET_FLUTTER_ERROR_INVALID_ARGUMENT, dst,
                et_flutter_set_error error ET_FLUTTER_ERROR_INVALID_ARGUMENT
                  ''Source or destination tensor is NULL'', h))"

section \<open>The engine's types\<close>

text \<open>
  The ExecuTorch runtime is outside the repository. Its \<^verbatim>\<open>Tensor\<close> owns nothing: it
  is a handle, a pointer to a \<^verbatim>\<open>TensorImpl\<close> that holds the scalar type, a pointer to
  the sizes (\<^verbatim>\<open>exec_aten::SizesType\<close> is a 32-bit signed integer) and the data pointer.
  The model of a \<^verbatim>\<open>Tensor\<close> records what the \<^verbatim>\<open>TensorImpl\<close> and its sizes were
  built with, and in \<open>impl_alive\<close> whether that storage still exists when the handle is
  used: \<^verbatim>\<open>scalar_type()\<close>, \<^verbatim>\<open>dim()\<close>, \<^verbatim>\<open>size(i)\<close> and
  \<^verbatim>\<open>const_data_ptr()\<close> read through the handle, and reading through a handle whose
  \<^verbatim>\<open>TensorImpl\<close> is gone is undefined (\<open>None\<close> for the whole call). Copying the
  handle into an \<^verbatim>\<open>EValue\<close> reads nothing. A loaded module is the function its
  \<^verbatim>\<open>forward\<close> computes from the input values and the memory: a list of output
  values, an error code, or a thrown exception (with its \<^verbatim>\<open>what()\<close> text when it is a
  \<^verbatim>\<open>std::exception\<close>); what the engine does with the handles it is given is part of
  that function.
\<close>

datatype ScalarType =
    ScalarType_Byte | ScalarType_Char | ScalarType_Short | ScalarType_Int | ScalarType_Long
  | ScalarType_Half | ScalarType_Float | ScalarType_Double | ScalarType_Bool

datatype Error = Error_InvalidArgument

record Tensor =
  scalar_type :: ScalarType
  sizes :: "int32_t list"
  const_data_ptr :: ptr
  impl_alive :: bool

datatype EValue = EValue_None | EValue_Int int64_t | EValue_Bool bool | EValue_Tensor Tensor

fun isTensor :: "EValue \<Rightarrow> bool" where
  "isTensor (EValue_Tensor t) = True"
| "isTensor v = False"

datatype forward_result =
    Forward_Ok "EValue list"
  | Forward_Error int32_t
  | Forward_Exception "string option"

record ETFlutterModelData =
  module :: "EValue list \<Rightarrow> heap \<Rightarrow> forward_result"
  file_path :: string

record ETFlutterForwardInput =
  num_inputs :: int32_t
  inputs :: "nat \<Rightarrow> ETFlutterTensorData option"

record ETFlutterForwardOutput =
  error :: ETFlutterError
  num_outputs :: int32_t
  outputs :: "nat \<Rightarrow> ptr"

section \<open>executorch\_flutter\_wrapper.cpp\<close>

definition scalar_type_of_dtype :: "ETFlutterDataType \<Rightarrow> ScalarType option" where
  "scalar_type_of_dtype dt =
     (if dt = ET_FLUTTER_DTYPE_FLOAT32 then Some ScalarType_Float
      else if dt = ET_FLUTTER_DTYPE_INT32 then Some ScalarType_Int
      else if dt = ET_FLUTTER_DTYPE_INT8 then Some ScalarType_Char
      else if dt = ET_FLUTTER_DTYPE_UINT8 then Some ScalarType_Byte
      else None)"

fun push_sizes :: "(nat \<Rightarrow> int64_t) \<Rightarrow> nat list \<Rightarrow> int32_t list \<Rightarrow> int32_t list option" where
  "push_sizes ds [] szs = Some szs"
| "push_sizes ds (i # is) szs =
     (if i < ET_FLUTTER_MAX_TENSOR_DIMS then push_sizes ds is (szs @ [ucast (ds i)]) else None)"

text \<open>
  \<^verbatim>\<open>convert_to_executorch_tensor\<close> fills the local vector \<^verbatim>\<open>sizes\<close>, builds the
  local \<^verbatim>\<open>tensor_impl\<close> over \<^verbatim>\<open>sizes.data()\<close> and the host's data pointer, and
  returns \<^verbatim>\<open>Tensor(&tensor_impl)\<close>. Both locals end with the call, so the handle the
  caller receives points to storage that is gone: \<open>impl_alive\<close> is \<open>False\<close>.
\<close>

definition convert_to_executorch_tensor :: "ETFlutterTensorData option \<Rightarrow> (Error + Tensor) option" where
  "convert_to_executorch_tensor tensor =
     (case tensor of
        None \<Rightarrow> Some (Inl Error_InvalidArgument)
      | Some t \<Rightarrow>
          if data t = None then Some (Inl Error_InvalidArgument)
          else
            (case scalar_type_of_dtype (dtype t) of
               None \<Rightarrow> Some (Inl Error_InvalidArgument)
             | Some st \<Rightarrow>
                 do {
                   szs \<leftarrow> push_sizes (dims (shape t)) [0..<nat (sint (num_dims (shape t)))] [];
                   Some (Inr \<lparr>scalar_type = st, sizes = szs, const_data_ptr = data t,
                              impl_alive = False\<rparr>)
                 }))"

definition dtype_of_scalar_type :: "ScalarType \<Rightarrow> ETFlutterDataType option" where
  "dtype_of_scalar_type st =
     (case st of
        ScalarType_Float \<Rightarrow> Some ET_FLUTTER_DTYPE_FLOAT32
      | ScalarType_Int \<Rightarrow> Some ET_FLUTTER_DTYPE_INT32
      | ScalarType_Char \<Rightarrow> Some ET_FLUTTER_DTYPE_INT8
      | ScalarType_Byte \<Rightarrow> Some ET_FLUTTER_DTYPE_UINT8
      | _ \<Rightarrow> None)"

text \<open>The struct after \<^verbatim>\<open>memset(result, 0, sizeof(ETFlutterTensorData))\<close>.\<close>

definition zero_tensor :: ETFlutterTensorData where
  "zero_tensor =
     \<lparr>shape = \<lparr>num_dims = 0, dims = (\<lambda>i. 0)\<rparr>, dtype = 0, data = None, data_size = 0,
      name = replicate ET_FLUTTER_TENSOR_NAME_MAX_LEN NUL\<rparr>"

text \<open>
  The loop \<^verbatim>\<open>for (i = 0; i < tensor.dim() && i < ET_FLUTTER_MAX_TENSOR_DIMS; i++)\<close> over
  the zeroed \<^verbatim>\<open>dims\<close>: the first eight sizes are stored, sign-extended to 64 bits.
\<close>

definition copy_dims :: "int32_t list \<Rightarrow> nat \<Rightarrow> int64_t" where
  "copy_dims szs i = (if i < length szs \<and> i < ET_FLUTTER_MAX_TENSOR_DIMS then scast (szs ! i) else 0)"

text \<open>
  \<^verbatim>\<open>convert_from_executorch_tensor\<close> allocates and zeroes the struct first; its first
  read through the handle is \<^verbatim>\<open>tensor.scalar_type()\<close>.
\<close>

definition convert_from_executorch_tensor :: "Tensor \<Rightarrow> world \<Rightarrow> (ptr \<times> world) option" where
  "convert_from_executorch_tensor tensor w =
     (case malloc (TensorStruct zero_tensor) w of
        (None, w1) \<Rightarrow> Some (None, w1)
      | (Some result, w1) \<Rightarrow>
          if \<not> impl_alive tensor then None
          else
            (case dtype_of_scalar_type (scalar_type tensor) of
               None \<Rightarrow> do { h \<leftarrow> free (Some result) (mem w1); Some (None, w1\<lparr>mem := h\<rparr>) }
             | Some dt \<Rightarrow>
                 do {
                   let r1 = zero_tensor\<lparr>dtype := dt,
                              shape := \<lparr>num_dims = of_nat (length (sizes tensor)),
                                        dims = copy_dims (sizes tensor)\<rparr>\<rparr>;
                   sz \<leftarrow> et_flutter_tensor_data_size (Some r1);
                   let r2 = r1\<lparr>data_size := sz\<rparr>;
                   case malloc (Bytes (replicate (unat sz) 0)) w1 of
                     (None, w2) \<Rightarrow> do { h \<leftarrow> free (Some result) (mem w2); Some (None, w2\<lparr>mem := h\<rparr>) }
                   | (Some d, w2) \<Rightarrow>
                       do {
                         h1 \<leftarrow> memcpy (mem w2) (Some d) (const_data_ptr tensor) (unat sz);
                         h2 \<leftarrow> write_struct h1 (Some result)
                                (r2\<lparr>data := Some d, name := (name r2)[0 := NUL]\<rparr>);
                         Some (Some result, w2\<lparr>mem := h2\<rparr>)
                       }
                 }))"

text \<open>The state of \<^verbatim>\<open>output\<close> after \<^verbatim>\<open>memset\<close> and \<^verbatim>\<open>et_flutter_clear_error\<close>.\<close>

definition zero_output :: ETFlutterForwardOutput where
  "zero_output =
     \<lparr>error = \<lparr>code = ET_FLUTTER_SUCCESS, message = replicate ET_FLUTTER_ERROR_MESSAGE_MAX_LEN NUL\<rparr>,
      num_outputs = 0, outputs = (\<lambda>i. None)\<rparr>"

fun convert_inputs ::
  "ETFlutterForwardInput \<Rightarrow> nat list \<Rightarrow> EValue list \<Rightarrow> (nat + EValue list) option" where
  "convert_inputs input [] acc = Some (Inr acc)"
| "convert_inputs input (i # is) acc =
     (if i < ET_FLUTTER_MAX_INPUTS then
        (case convert_to_executorch_tensor (inputs input i) of
           None \<Rightarrow> None
         | Some (Inl e) \<Rightarrow> Some (Inl i)
         | Some (Inr t) \<Rightarrow> convert_inputs input is (acc @ [EValue_Tensor t]))
      else None)"

text \<open>The loop that frees the outputs already allocated, \<^verbatim>\<open>for (j = 0; j < i; j++)\<close>.\<close>

fun free_allocated :: "(nat \<Rightarrow> ptr) \<Rightarrow> nat list \<Rightarrow> heap \<Rightarrow> heap option" where
  "free_allocated outs [] h = Some h"
| "free_allocated outs (j # js) h =
     (if j < ET_FLUTTER_MAX_OUTPUTS then
        (case outs j of
           None \<Rightarrow> free_allocated outs js h
         | Some p \<Rightarrow>
             (case read_struct h (Some p) of
                None \<Rightarrow> None
              | Some t \<Rightarrow>
                  (case free (data t) h of
                     None \<Rightarrow> None
                   | Some h1 \<Rightarrow>
                       (case free (Some p) h1 of
                          None \<Rightarrow> None
                        | Some h2 \<Rightarrow> free_allocated outs js h2))))
      else None)"

fun convert_outputs ::
  "EValue list \<Rightarrow> nat \<Rightarrow> ETFlutterForwardOutput \<Rightarrow> world
     \<Rightarrow> (ETFlutterForwardOutput \<times> world) option" where
  "convert_outputs [] i output w = Some (output, w)"
| "convert_outputs (v # vs) i output w =
     (if i < ET_FLUTTER_MAX_OUTPUTS then
        (case v of
           EValue_Tensor t \<Rightarrow>
             (case convert_from_executorch_tensor t w of
                None \<Rightarrow> None
              | Some (None, w1) \<Rightarrow>
                  (case free_allocated ((outputs output)(i := None)) [0..<i] (mem w1) of
                     None \<Rightarrow> None
                   | Some h \<Rightarrow>
                       Some (output\<lparr>outputs := (outputs output)(i := None),
                                    error := set_error_fields (error output) ET_FLUTTER_ERROR_MEMORY
                                      (''Failed to allocate output tensor '' @ show_nat i),
                                    num_outputs := 0\<rparr>,
                             w1\<lparr>mem := h\<rparr>))
              | Some (Some p, w1) \<Rightarrow>
                  convert_outputs vs (Suc i) (output\<lparr>outputs := (outputs output)(i := Some p)\<rparr>) w1)
         | _ \<Rightarrow> convert_outputs vs (Suc i) output w)
      else Some (output, w))"

definition et_flutter_forward ::
  "ETFlutterModelData option \<Rightarrow> ETFlutterForwardInput option \<Rightarrow> world
     \<Rightarrow> (ETFlutterForwardOutput \<times> world) option" where
  "et_flutter_forward model_handle input w =
     (case model_handle of
        None \<Rightarrow>
          Some (zero_output\<lparr>error := set_error_fields (error zero_output)
                  ET_FLUTTER_ERROR_INVALID_HANDLE ''model_handle is NULL''\<rparr>, w)
      | Some model_data \<Rightarrow>
          (case input of
             None \<Rightarrow>
               Some (zero_output\<lparr>error := set_error_fields (error zero_output)
                       ET_FLUTTER_ERROR_INVALID_ARGUMENT ''input is NULL or has no tensors''\<rparr>, w)
           | Some inp \<Rightarrow>
               if sint (num_inputs inp) \<le> 0
               then Some (zero_output\<lparr>error := set_error_fields (error zero_output)
                       ET_FLUTTER_ERROR_INVALID_ARGUMENT ''input is NULL or has no tensors''\<rparr>, w)
               else
                 (case convert_inputs inp [0..<nat (sint (num_inputs inp))] [] of
                    None \<Rightarrow> None
                  | Some (Inl i) \<Rightarrow>
                      Some (zero_output\<lparr>error := set_error_fields (error zero_output)
                              ET_FLUTTER_ERROR_VALIDATION
                              (''Failed to convert input tensor '' @ show_nat i)\<rparr>, w)
                  | Some (Inr ins) \<Rightarrow>
                      (let w1 = w\<lparr>engine_calls := Suc (engine_calls w)\<rparr> in
                       case module model_data ins (mem w1) of
                         Forward_Error c \<Rightarrow>
                           Some (zero_output\<lparr>error := set_error_fields (error zero_output)
                                   ET_FLUTTER_ERROR_INFERENCE
                                   (''Forward pass failed: error code '' @ show_int (sint c))\<rparr>, w1)
                       | Forward_Exception what \<Rightarrow>
                           Some (zero_output\<lparr>error := set_error_fields (error zero_output)
                                   ET_FLUTTER_ERROR_INFERENCE
                                   (case what of
                                      Some text \<Rightarrow> ''Exception during forward pass: '' @ text
                                    | None \<Rightarrow> ''Unknown exception during forward pass''),
                                   num_outputs := 0\<rparr>, w1)
                       | Forward_Ok outs \<Rightarrow>
                           convert_outputs outs 0
                             (zero_output\<lparr>num_outputs := of_nat (length outs)\<rparr>) w1))))"

fun free_outputs :: "(nat \<Rightarrow> ptr) \<Rightarrow> nat list \<Rightarrow> heap \<Rightarrow> heap option" where
  "free_outputs outs [] h = Some h"
| "free_outputs outs (i # is) h =
     (if i < ET_FLUTTER_MAX_OUTPUTS then
        (case outs i of
           None \<Rightarrow> free_outputs outs is h
         | Some p \<Rightarrow>
             (case read_struct h (Some p) of
                None \<Rightarrow> None
              | Some t \<Rightarrow>
                  (case (if data t \<noteq> None then free (data t) h else Some h) of
                     None \<Rightarrow> None
                   | Some h1 \<Rightarrow>
                       (case free (Some p) h1 of
                          None \<Rightarrow> None
                        | Some h2 \<Rightarrow> free_outputs outs is h2))))
      else None)"

definition et_flutter_free_forward_output ::
  "ETFlutterForwardOutput option \<Rightarrow> heap \<Rightarrow> (ETFlutterForwardOutput option \<times> heap) option" where
  "et_flutter_free_forward_output output h =
     (case output of
        None \<Rightarrow> Some (None, h)
      | Some out \<Rightarrow>
          (case free_outputs (outputs out) [0..<nat (sint (num_outputs out))] h of
             None \<Rightarrow> None
           | Some h' \<Rightarrow> Some (Some (out\<lparr>num_outputs := 0\<rparr>), h')))"

section \<open>Reference definitions, predicates and example values of the statements\<close>

subsection \<open>Validation\<close>

text \<open>
  The checks of validation as a list of decisions in their order, and the size a tensor is
  expected to have: the product of its dimensions times the size of its dtype, in
  \<^verbatim>\<open>size_t\<close>. A shape is in range when it has 1 to 8 dimensions, all positive.
\<close>

definition shape_in_range :: "ETFlutterTensorShape \<Rightarrow> bool" where
  "shape_in_range s =
     (1 \<le> sint (num_dims s) \<and> sint (num_dims s) \<le> int ET_FLUTTER_MAX_TENSOR_DIMS
      \<and> list_all (\<lambda>i. 0 < sint (dims s i)) [0..<nat (sint (num_dims s))])"

definition expected_data_size :: "ETFlutterTensorData \<Rightarrow> size_t" where
  "expected_data_size t =
     prod_list (map (dims (shape t)) [0..<nat (sint (num_dims (shape t)))])
       * et_flutter_dtype_size (dtype t)"

definition validate_checks_in_order :: "ETFlutterTensorData option \<Rightarrow> ETFlutterErrorCode" where
  "validate_checks_in_order tensor =
     (case tensor of
        None \<Rightarrow> ET_FLUTTER_ERROR_INVALID_ARGUMENT
      | Some t \<Rightarrow>
          if sint (num_dims (shape t)) < 1 \<or> 8 < sint (num_dims (shape t))
            then ET_FLUTTER_ERROR_VALIDATION
          else if list_ex (\<lambda>i. sint (dims (shape t) i) \<le> 0) [0..<nat (sint (num_dims (shape t)))]
            then ET_FLUTTER_ERROR_VALIDATION
          else if data t = None
            then ET_FLUTTER_ERROR_INVALID_ARGUMENT
          else if data_size t \<noteq> expected_data_size t
            then ET_FLUTTER_ERROR_VALIDATION
          else ET_FLUTTER_SUCCESS)"

subsection \<open>The error record\<close>

text \<open>
  The invariant the error record is meant to keep: the code is SUCCESS exactly when the
  message, read as a C string, is empty.
\<close>

definition error_invariant :: "ETFlutterError \<Rightarrow> bool" where
  "error_invariant e \<longleftrightarrow> (code e = ET_FLUTTER_SUCCESS \<longleftrightarrow> c_str (message e) = [])"

definition zero_error :: ETFlutterError where
  "zero_error = \<lparr>code = ET_FLUTTER_SUCCESS, message = replicate ET_FLUTTER_ERROR_MESSAGE_MAX_LEN NUL\<rparr>"

subsection \<open>Memory and conversions\<close>

text \<open>
  Two memories hold the same blocks when every address has the same content in both; a block
  that was allocated and freed again leaves an empty slot, which no address can tell from
  one never allocated.
\<close>

definition same_blocks :: "heap \<Rightarrow> heap \<Rightarrow> bool" where
  "same_blocks h h' \<longleftrightarrow> (\<forall>a. lookup h' a = lookup h a)"

text \<open>What a conversion that returns a struct has built.\<close>

definition converted :: "Tensor \<Rightarrow> heap \<Rightarrow> ETFlutterTensorData \<Rightarrow> byte list \<Rightarrow> bool" where
  "converted t h st bs \<longleftrightarrow>
     dtype_of_scalar_type (scalar_type t) = Some (dtype st)
     \<and> num_dims (shape st) = of_nat (length (sizes t))
     \<and> dims (shape st) = copy_dims (sizes t)
     \<and> et_flutter_tensor_data_size (Some st) = Some (data_size st)
     \<and> read_bytes h (const_data_ptr t) (unat (data_size st)) = Some bs
     \<and> c_str (name st) = []"

text \<open>
  The state of the conversion loop before output \<open>i\<close>: the slots from \<open>i\<close> on are
  still null, and freeing the outputs allocated so far is defined and gives back the blocks
  of the memory \<open>h0\<close> the loop started from.
\<close>

definition cleanup_inv :: "heap \<Rightarrow> (nat \<Rightarrow> ptr) \<Rightarrow> nat \<Rightarrow> heap \<Rightarrow> bool" where
  "cleanup_inv h0 outs i h \<longleftrightarrow>
     (\<forall>j\<ge>i. outs j = None)
     \<and> (\<exists>h'. free_allocated outs [0..<i] h = Some h' \<and> same_blocks h0 h')"

text \<open>
  An output tensor of the engine that the wrapper can convert: the \<^verbatim>\<open>TensorImpl\<close> it
  points to exists, its scalar type is one of the four the wrapper maps, it has at most
  eight dimensions (the size of a tensor of higher rank is computed from \<^verbatim>\<open>dims\<close>
  read out of bounds), and its data pointer holds the bytes the wrapper copies.
\<close>

definition native_ok :: "heap \<Rightarrow> Tensor \<Rightarrow> bool" where
  "native_ok h t =
     (impl_alive t \<and>
      (case dtype_of_scalar_type (scalar_type t) of
         None \<Rightarrow> False
       | Some dt \<Rightarrow>
           (case et_flutter_tensor_data_size
                   (Some (zero_tensor\<lparr>dtype := dt,
                            shape := \<lparr>num_dims = of_nat (length (sizes t)),
                                      dims = copy_dims (sizes t)\<rparr>\<rparr>)) of
              None \<Rightarrow> False
            | Some sz \<Rightarrow> read_bytes h (const_data_ptr t) (unat sz) \<noteq> None)))"

fun value_ok :: "heap \<Rightarrow> EValue \<Rightarrow> bool" where
  "value_ok h (EValue_Tensor t) = native_ok h t"
| "value_ok h v = True"

text \<open>The number of tensors among some output values.\<close>

definition tensor_count :: "EValue list \<Rightarrow> nat" where
  "tensor_count vs = length (filter isTensor vs)"

text \<open>
  The round trip of the claim: the host tensor converted to the engine's tensor, handed back
  unchanged, converted to a host tensor again, and the new struct read from the memory.
  \<open>None\<close> when a conversion fails or is undefined.
\<close>

definition round_trip :: "ETFlutterTensorData \<Rightarrow> world \<Rightarrow> (ETFlutterTensorData \<times> world) option" where
  "round_trip t w =
     (case convert_to_executorch_tensor (Some t) of
        Some (Inr native) \<Rightarrow>
          (case convert_from_executorch_tensor native w of
             Some (Some p, w') \<Rightarrow>
               (case read_struct (mem w') (Some p) of Some t' \<Rightarrow> Some (t', w') | None \<Rightarrow> None)
           | _ \<Rightarrow> None)
      | _ \<Rightarrow> None)"

subsection \<open>Example values\<close>

text \<open>
  A C array initialiser: the listed elements, then zeros. The tensors, inputs, memories and
  engines below are the concrete inputs the statements are evaluated at: an image tensor of
  shape [1,3,224,224], a four-byte tensor whose buffer is block 0 of the memory, a second
  memory with a destination buffer of four bytes in block 1, a tensor of the engine's own
  over block 0, and engines that return it a number of times, or between two values that
  are not tensors.
\<close>

definition array_of :: "'a::zero list \<Rightarrow> nat \<Rightarrow> 'a" where
  "array_of xs i = (if i < length xs then xs ! i else 0)"

definition image_tensor :: ETFlutterTensorData where
  "image_tensor =
     \<lparr>shape = \<lparr>num_dims = 4, dims = array_of [1, 3, 224, 224]\<rparr>,
      dtype = ET_FLUTTER_DTYPE_FLOAT32, data = Some 0, data_size = 602112,
      name = replicate ET_FLUTTER_TENSOR_NAME_MAX_LEN NUL\<rparr>"

definition byte_tensor :: ETFlutterTensorData where
  "byte_tensor =
     \<lparr>shape = \<lparr>num_dims = 1, dims = (\<lambda>i. if i = 0 then 4 else 0)\<rparr>,
      dtype = ET_FLUTTER_DTYPE_UINT8, data = Some 0, data_size = 4,
      name = replicate ET_FLUTTER_TENSOR_NAME_MAX_LEN NUL\<rparr>"

definition empty_input :: ETFlutterForwardInput where
  "empty_input = \<lparr>num_inputs = 0, inputs = (\<lambda>i. None)\<rparr>"

definition one_input :: ETFlutterForwardInput where
  "one_input = \<lparr>num_inputs = 1, inputs = (\<lambda>i. if i = 0 then Some byte_tensor else None)\<rparr>"

definition empty_world :: world where
  "empty_world = \<lparr>mem = [], malloc_script = [], engine_calls = 0\<rparr>"

definition host_world :: world where
  "host_world = \<lparr>mem = [Some (Bytes [1, 2, 3, 4])], malloc_script = [], engine_calls = 0\<rparr>"

definition no_output_model :: ETFlutterModelData where
  "no_output_model = \<lparr>module = (\<lambda>ins h. Forward_Ok []), file_path = ''model.pte''\<rparr>"

definition engine_tensor :: Tensor where
  "engine_tensor =
     \<lparr>scalar_type = ScalarType_Byte, sizes = [4], const_data_ptr = Some 0, impl_alive = True\<rparr>"

definition repeating_model :: "nat \<Rightarrow> ETFlutterModelData" where
  "repeating_model n =
     \<lparr>module = (\<lambda>ins h. Forward_Ok (replicate n (EValue_Tensor engine_tensor))),
      file_path = ''model.pte''\<rparr>"

definition mixed_model :: ETFlutterModelData where
  "mixed_model =
     \<lparr>module = (\<lambda>ins h. Forward_Ok [EValue_Int 7, EValue_Tensor engine_tensor, EValue_Bool True]),
      file_path = ''model.pte''\<rparr>"

definition copy_world :: world where
  "copy_world =
     \<lparr>mem = [Some (Bytes [1, 2, 3, 4]), Some (Bytes [0, 0, 0, 0])], malloc_script = [],
      engine_calls = 0\<rparr>"

section \<open>Properties of validation and sizes\<close>

lemma mul_dims_in_bounds:
  "\<forall>i \<in> set is. i < ET_FLUTTER_MAX_TENSOR_DIMS \<Longrightarrow> mul_dims ds is acc = Some (foldl (\<lambda>a i. a * ds i) acc is)"
  by (induction "is" arbitrary: acc) auto

lemma mul_dims_upt:
  "n \<le> ET_FLUTTER_MAX_TENSOR_DIMS \<Longrightarrow> mul_dims ds [0..<n] acc = Some (foldl (\<lambda>a i. a * ds i) acc [0..<n])"
  by (rule mul_dims_in_bounds) auto

lemma find_None_list_all: "(find P xs = None) = list_all (\<lambda>x. \<not> P x) xs"
  by (induction xs) auto

lemma et_flutter_tensor_data_size_in_range:
  assumes "shape_in_range (shape t)"
  shows "et_flutter_tensor_data_size (Some t) =
     Some (foldl (\<lambda>a i. a * dims (shape t) i) 1 [0..<nat (sint (num_dims (shape t)))] * et_flutter_dtype_size (dtype t))"
proof -
  have "nat (sint (num_dims (shape t))) \<le> ET_FLUTTER_MAX_TENSOR_DIMS"
    using assms unfolding shape_in_range_def by linarith
  then show ?thesis
    by (simp add: et_flutter_tensor_data_size_def mul_dims_upt del: upt.simps)
qed

lemma et_flutter_shape_element_count_in_range:
  assumes "shape_in_range s"
  shows "et_flutter_shape_element_count (Some s) =
     Some (foldl (\<lambda>a i. a * dims s i) 1 [0..<nat (sint (num_dims s))])"
proof -
  have "nat (sint (num_dims s)) \<le> ET_FLUTTER_MAX_TENSOR_DIMS" "\<not> sint (num_dims s) \<le> 0"
    using assms unfolding shape_in_range_def by linarith+
  then show ?thesis
    by (simp add: et_flutter_shape_element_count_def mul_dims_upt del: upt.simps)
qed

lemma validate_in_range:
  assumes "shape_in_range (shape t)" "data t \<noteq> None"
  shows "et_flutter_tensor_validate (Some t) err =
     (if data_size t = foldl (\<lambda>a i. a * dims (shape t) i) 1 [0..<nat (sint (num_dims (shape t)))] * et_flutter_dtype_size (dtype t)
      then Some (ET_FLUTTER_SUCCESS, et_flutter_clear_error err)
      else Some (ET_FLUTTER_ERROR_VALIDATION, et_flutter_set_error err ET_FLUTTER_ERROR_VALIDATION
                         (''Tensor data size mismatch: got '' @ show_nat (unat (data_size t))
                            @ '' bytes, expected '' @ show_nat (unat (foldl (\<lambda>a i. a * dims (shape t) i) 1 [0..<nat (sint (num_dims (shape t)))] * et_flutter_dtype_size (dtype t))) @ '' bytes'')))"
proof -
  have f: "find (\<lambda>i. sint (dims (shape t) i) \<le> 0) [0..<nat (sint (num_dims (shape t)))] = None"
    using assms(1) unfolding shape_in_range_def find_None_list_all
    by (simp add: not_le)
  have r: "\<not> (sint (num_dims (shape t)) < 1 \<or> sint (num_dims (shape t)) > int ET_FLUTTER_MAX_TENSOR_DIMS)"
    using assms(1) unfolding shape_in_range_def by auto
  show ?thesis
    unfolding et_flutter_tensor_validate_def
    using assms(2) r f et_flutter_tensor_data_size_in_range[OF assms(1)]
    by (simp del: upt.simps)
qed

lemma foldl_mul_dims: "foldl (\<lambda>a i. a * ds i) acc xs = acc * prod_list (map ds xs)"
  for acc :: size_t
  by (induction xs arbitrary: acc) (simp_all add: mult.assoc)

lemma shape_in_range_iff:
  "shape_in_range s \<longleftrightarrow>
     \<not> (sint (num_dims s) < 1 \<or> 8 < sint (num_dims s))
     \<and> \<not> list_ex (\<lambda>i. sint (dims s i) \<le> 0) [0..<nat (sint (num_dims s))]"
  unfolding shape_in_range_def list_ex_iff list_all_iff by auto

lemma find_bad_dim_None:
  "shape_in_range s \<Longrightarrow> find (\<lambda>i. sint (dims s i) \<le> 0) [0..<nat (sint (num_dims s))] = None"
  unfolding shape_in_range_def find_None_list_all by (simp add: not_le)

lemma validate_code:
  "map_option fst (et_flutter_tensor_validate tensor err) = Some (validate_checks_in_order tensor)"
proof (cases tensor)
  case None
  then show ?thesis
    by (simp add: et_flutter_tensor_validate_def validate_checks_in_order_def)
next
  case (Some t)
  show ?thesis
  proof (cases "shape_in_range (shape t)")
    case True
    then have ok: "\<not> (sint (num_dims (shape t)) < 1 \<or> 8 < sint (num_dims (shape t)))"
      "\<not> list_ex (\<lambda>i. sint (dims (shape t) i) \<le> 0) [0..<nat (sint (num_dims (shape t)))]"
      by (simp_all add: shape_in_range_iff)
    show ?thesis
    proof (cases "data t")
      case None
      then show ?thesis
        using ok find_bad_dim_None [OF True] \<open>tensor = Some t\<close>
        by (simp add: et_flutter_tensor_validate_def validate_checks_in_order_def del: upt.simps)
    next
      case (Some a)
      then have "data t \<noteq> None" by simp
      from validate_in_range [OF True this, of err] ok show ?thesis
        unfolding \<open>tensor = Some t\<close> validate_checks_in_order_def expected_data_size_def
        by (simp add: foldl_mul_dims Some del: upt.simps)
    qed
  next
    case False
    show ?thesis
    proof (cases "sint (num_dims (shape t)) < 1 \<or> 8 < sint (num_dims (shape t))")
      case True
      then show ?thesis
        using Some by (auto simp add: et_flutter_tensor_validate_def validate_checks_in_order_def simp del: upt.simps)
    next
      case inr: False
      with False have ex: "list_ex (\<lambda>i. sint (dims (shape t) i) \<le> 0) [0..<nat (sint (num_dims (shape t)))]"
        by (simp add: shape_in_range_iff)
      then have "find (\<lambda>i. sint (dims (shape t) i) \<le> 0) [0..<nat (sint (num_dims (shape t)))] \<noteq> None"
        unfolding find_None_list_all list_all_iff list_ex_iff by blast
      then obtain i where "find (\<lambda>i. sint (dims (shape t) i) \<le> 0) [0..<nat (sint (num_dims (shape t)))] = Some i"
        by blast
      then show ?thesis
        using Some inr ex
        by (auto simp add: et_flutter_tensor_validate_def validate_checks_in_order_def simp del: upt.simps)
    qed
  qed
qed


lemma upt_4: "[0..<4] = [0, 1, 2, 3]"
  by (simp add: upt_conv_Cons)

lemma image_tensor_in_range: "shape_in_range (shape image_tensor)"
  by (simp add: shape_in_range_def image_tensor_def array_of_def upt_4)



text \<open>
  C4. The claim asks that a tensor whose dtype is none of the four enumerators fails
  validation. The code has no check of the dtype: \<^verbatim>\<open>et_flutter_dtype_size\<close> returns 0
  for it, the expected size is 0, and a tensor of shape [1] with dtype 99, a data pointer and
  \<^verbatim>\<open>data_size\<close> 0 is accepted with SUCCESS.
\<close>

theorem validate_accepts_unknown_dtype:
  "map_option fst (et_flutter_tensor_validate
     (Some \<lparr>shape = \<lparr>num_dims = 1, dims = array_of [1]\<rparr>, dtype = 99, data = Some 0,
            data_size = 0, name = replicate ET_FLUTTER_TENSOR_NAME_MAX_LEN NUL\<rparr>)
     (Some \<lparr>code = ET_FLUTTER_ERROR_IO, message = ''stale''\<rparr>))
   = Some ET_FLUTTER_SUCCESS
   \<and> et_flutter_dtype_size 99 = 0"
  by (simp add: et_flutter_tensor_validate_def et_flutter_tensor_data_size_def
      et_flutter_dtype_size_def array_of_def et_flutter_clear_error_def clear_error_fields_def)

text \<open>
  C7. For the shape [1,3,224,224] with dtype Float32 the element count is 150528, the dtype
  size 4 and the expected data size 602112. For every tensor whose shape has 1 to 8
  dimensions, all positive, and whose data pointer is set, validation accepts exactly the
  \<^verbatim>\<open>data_size\<close> that equals element count times dtype size (in \<^verbatim>\<open>size_t\<close>).
\<close>

theorem accepted_data_size:
  "et_flutter_shape_element_count (Some (shape image_tensor)) = Some 150528
   \<and> et_flutter_dtype_size (dtype image_tensor) = 4
   \<and> et_flutter_tensor_data_size (Some image_tensor) = Some 602112
   \<and> (shape_in_range (shape t) \<and> data t \<noteq> None \<longrightarrow>
        (\<exists>c. et_flutter_shape_element_count (Some (shape t)) = Some c
           \<and> (map_option fst (et_flutter_tensor_validate (Some t) err) = Some ET_FLUTTER_SUCCESS
                \<longleftrightarrow> data_size t = c * et_flutter_dtype_size (dtype t))))"
proof (intro conjI impI)
  show "et_flutter_shape_element_count (Some (shape image_tensor)) = Some 150528"
    by (simp add: et_flutter_shape_element_count_def image_tensor_def array_of_def upt_4)
  show "et_flutter_dtype_size (dtype image_tensor) = 4"
    by (simp add: et_flutter_dtype_size_def image_tensor_def)
  show "et_flutter_tensor_data_size (Some image_tensor) = Some 602112"
    by (simp add: et_flutter_tensor_data_size_def et_flutter_dtype_size_def image_tensor_def
        array_of_def upt_4)
next
  assume a: "shape_in_range (shape t) \<and> data t \<noteq> None"
  then have r: "shape_in_range (shape t)" and d: "data t \<noteq> None"
    by simp_all
  show "\<exists>c. et_flutter_shape_element_count (Some (shape t)) = Some c
           \<and> (map_option fst (et_flutter_tensor_validate (Some t) err) = Some ET_FLUTTER_SUCCESS
                \<longleftrightarrow> data_size t = c * et_flutter_dtype_size (dtype t))"
    unfolding et_flutter_shape_element_count_in_range [OF r] validate_in_range [OF r d]
    by simp
qed

theorem accepted_data_size_witness:
  "shape_in_range (shape image_tensor) \<and> data image_tensor \<noteq> None
   \<and> et_flutter_shape_element_count (Some (shape image_tensor)) = Some 150528
   \<and> data_size image_tensor = 150528 * et_flutter_dtype_size (dtype image_tensor)
   \<and> map_option fst (et_flutter_tensor_validate (Some image_tensor) None) = Some ET_FLUTTER_SUCCESS"
proof -
  have d: "data image_tensor \<noteq> None" "data_size image_tensor = 150528 * 4"
    by (simp_all add: image_tensor_def)
  show ?thesis
    using accepted_data_size [of image_tensor None] image_tensor_in_range d
    by auto
qed

section \<open>Properties of the error record\<close>

lemma c_str_no_NUL: "NUL \<notin> set (c_str s)"
  unfolding c_str_def by (induction s) auto

lemma c_str_terminated: "NUL \<notin> set xs \<Longrightarrow> c_str (xs @ NUL # ys) = xs"
  unfolding c_str_def by (induction xs) auto

lemma vsnprintf_shape:
  assumes "0 < n"
  shows "vsnprintf buf n formatted
    = take (n - 1) (c_str formatted) @ NUL # drop (Suc (length (take (n - 1) (c_str formatted)))) buf"
  using assms by (simp add: vsnprintf_def Let_def)

lemma update_after_terminator:
  assumes "length xs \<le> k"
  shows "\<exists>zs. (xs @ NUL # ys)[k := NUL] = xs @ NUL # zs \<and> length zs = length ys"
proof (cases "length xs = k")
  case True
  then show ?thesis by (simp add: list_update_append)
next
  case False
  with assms have "length xs < k" by simp
  then obtain j where "k = Suc (length xs + j)"
    using less_iff_Suc_add by auto
  then have "(xs @ NUL # ys)[k := NUL] = xs @ NUL # ys[j := NUL]"
    by (simp add: list_update_append)
  then show ?thesis by simp
qed

lemma set_error_fields_message:
  "\<exists>zs. message (set_error_fields e c formatted) = take 255 (c_str formatted) @ NUL # zs
     \<and> length zs = length (message e) - Suc (length (take 255 (c_str formatted)))"
proof -
  let ?t = "take 255 (c_str formatted)"
  have "length ?t \<le> 255" by simp
  from update_after_terminator [OF this, of "drop (Suc (length ?t)) (message e)"]
  show ?thesis
    by (simp add: set_error_fields_def Let_def vsnprintf_shape)
qed

lemma set_error_fields_code: "code (set_error_fields e c formatted) = c"
  by (simp add: set_error_fields_def Let_def)

lemma set_error_fields_c_str:
  "c_str (message (set_error_fields e c formatted)) = take 255 (c_str formatted)"
proof -
  obtain zs where "message (set_error_fields e c formatted) = take 255 (c_str formatted) @ NUL # zs"
    using set_error_fields_message by blast
  moreover have "NUL \<notin> set (take 255 (c_str formatted))"
    using c_str_no_NUL in_set_takeD by fastforce
  ultimately show ?thesis
    by (simp add: c_str_terminated)
qed

lemma set_error_fields_last:
  assumes "length (message e) = 256"
  shows "length (message (set_error_fields e c formatted)) = 256
    \<and> message (set_error_fields e c formatted) ! 255 = NUL"
  using assms by (simp add: set_error_fields_def Let_def vsnprintf_def)

lemma clear_error_fields_c_str: "c_str (message (clear_error_fields e)) = []"
  by (cases "message e") (simp_all add: clear_error_fields_def c_str_def)

lemma take_255_Nil: "take 255 xs = [] \<longleftrightarrow> xs = []"
  by (cases xs) simp_all

text \<open>
  C8, as the code has it. \<^verbatim>\<open>et_flutter_clear_error\<close> always leaves code SUCCESS and an
  empty message. \<^verbatim>\<open>et_flutter_set_error\<close> stores the code it is given and the formatted
  text cut to at most 255 bytes, always with a terminating NUL inside the buffer (at index
  255 at the latest). It has no guard tying the code to the text, so the record it leaves
  satisfies "code is SUCCESS exactly when the message is empty" exactly when the arguments
  do: the code is SUCCESS exactly when the formatted text is empty. Both operations do
  nothing on a null record.
\<close>

theorem error_record_operations:
  "et_flutter_clear_error None = None
   \<and> et_flutter_set_error None c formatted = None
   \<and> (\<exists>e'. et_flutter_clear_error (Some e) = Some e'
         \<and> code e' = ET_FLUTTER_SUCCESS \<and> c_str (message e') = [] \<and> error_invariant e')
   \<and> (\<exists>e'. et_flutter_set_error (Some e) c formatted = Some e'
         \<and> code e' = c
         \<and> c_str (message e') = take (ET_FLUTTER_ERROR_MESSAGE_MAX_LEN - 1) (c_str formatted)
         \<and> NUL \<in> set (message e')
         \<and> (length (message e) = ET_FLUTTER_ERROR_MESSAGE_MAX_LEN \<longrightarrow>
              length (message e') = ET_FLUTTER_ERROR_MESSAGE_MAX_LEN
              \<and> message e' ! (ET_FLUTTER_ERROR_MESSAGE_MAX_LEN - 1) = NUL)
         \<and> (error_invariant e' \<longleftrightarrow> (c = ET_FLUTTER_SUCCESS \<longleftrightarrow> c_str formatted = [])))"
proof (intro conjI)
  show "et_flutter_clear_error None = None"
    by (simp add: et_flutter_clear_error_def)
  show "et_flutter_set_error None c formatted = None"
    by (simp add: et_flutter_set_error_def)
  show "\<exists>e'. et_flutter_clear_error (Some e) = Some e'
         \<and> code e' = ET_FLUTTER_SUCCESS \<and> c_str (message e') = [] \<and> error_invariant e'"
    using clear_error_fields_c_str [of e]
    by (simp add: et_flutter_clear_error_def error_invariant_def) (simp add: clear_error_fields_def)
  have n: "NUL \<in> set (message (set_error_fields e c formatted))"
    using set_error_fields_message [of e c formatted] by auto
  have l: "length (message e) = ET_FLUTTER_ERROR_MESSAGE_MAX_LEN \<longrightarrow>
              length (message (set_error_fields e c formatted)) = ET_FLUTTER_ERROR_MESSAGE_MAX_LEN
              \<and> message (set_error_fields e c formatted) ! (ET_FLUTTER_ERROR_MESSAGE_MAX_LEN - 1) = NUL"
    using set_error_fields_last [of e c formatted] by simp
  show "\<exists>e'. et_flutter_set_error (Some e) c formatted = Some e'
         \<and> code e' = c
         \<and> c_str (message e') = take (ET_FLUTTER_ERROR_MESSAGE_MAX_LEN - 1) (c_str formatted)
         \<and> NUL \<in> set (message e')
         \<and> (length (message e) = ET_FLUTTER_ERROR_MESSAGE_MAX_LEN \<longrightarrow>
              length (message e') = ET_FLUTTER_ERROR_MESSAGE_MAX_LEN
              \<and> message e' ! (ET_FLUTTER_ERROR_MESSAGE_MAX_LEN - 1) = NUL)
         \<and> (error_invariant e' \<longleftrightarrow> (c = ET_FLUTTER_SUCCESS \<longleftrightarrow> c_str formatted = []))"
    using n l
    by (simp add: et_flutter_set_error_def error_invariant_def set_error_fields_code
        set_error_fields_c_str take_255_Nil)
qed

theorem error_record_operations_witness:
  "length (message zero_error) = ET_FLUTTER_ERROR_MESSAGE_MAX_LEN
   \<and> (\<exists>e'. et_flutter_set_error (Some zero_error) ET_FLUTTER_ERROR_MEMORY (replicate 300 CHR ''x'') = Some e'
        \<and> code e' = ET_FLUTTER_ERROR_MEMORY
        \<and> c_str (message e') = replicate 255 CHR ''x''
        \<and> length (message e') = ET_FLUTTER_ERROR_MESSAGE_MAX_LEN
        \<and> message e' ! (ET_FLUTTER_ERROR_MESSAGE_MAX_LEN - 1) = NUL
        \<and> error_invariant e')"
proof -
  have c: "c_str (replicate 300 CHR ''x'') = replicate 300 CHR ''x''"
    by (simp add: c_str_def)
  have l: "length (message zero_error) = ET_FLUTTER_ERROR_MESSAGE_MAX_LEN"
    by (simp add: zero_error_def)
  have r: "replicate 300 CHR ''x'' \<noteq> []"
    by simp
  show ?thesis
    using error_record_operations [of ET_FLUTTER_ERROR_MEMORY "replicate 300 CHR ''x''" zero_error] l r
    unfolding c by auto
qed

text \<open>
  C8 as stated fails: setting the code MEMORY with an empty text leaves a non-SUCCESS code
  with an empty message, and setting SUCCESS with a text leaves SUCCESS with a message.
\<close>

theorem set_error_breaks_invariant:
  "map_option code (et_flutter_set_error (Some zero_error) ET_FLUTTER_ERROR_MEMORY [])
     = Some ET_FLUTTER_ERROR_MEMORY
   \<and> map_option (\<lambda>e. c_str (message e)) (et_flutter_set_error (Some zero_error) ET_FLUTTER_ERROR_MEMORY [])
     = Some []
   \<and> map_option code (et_flutter_set_error (Some zero_error) ET_FLUTTER_SUCCESS ''done'')
     = Some ET_FLUTTER_SUCCESS
   \<and> map_option (\<lambda>e. c_str (message e)) (et_flutter_set_error (Some zero_error) ET_FLUTTER_SUCCESS ''done'')
     = Some ''done''"
proof -
  have "c_str [] = []" "c_str ''done'' = ''done''"
    by (simp_all add: c_str_def)
  then show ?thesis
    by (simp add: et_flutter_set_error_def set_error_fields_code set_error_fields_c_str)
qed

section \<open>Properties of the forward call\<close>

lemma zero_output_fields:
  "code (error zero_output) = ET_FLUTTER_SUCCESS" "num_outputs zero_output = 0"
  "outputs zero_output = (\<lambda>i. None)"
  by (simp_all add: zero_output_def)

text \<open>
  C6. For every input, \<^verbatim>\<open>et_flutter_forward\<close> with a null model handle returns
  INVALID\_HANDLE with zero outputs; with a handle and a null input struct, or an input
  count of zero or less, it returns INVALID\_ARGUMENT with zero outputs. In each case the
  world is returned as it was: no engine call is counted and the memory is untouched.
\<close>

theorem forward_rejects_before_engine:
  "(\<exists>out. et_flutter_forward None input w = Some (out, w)
        \<and> code (error out) = ET_FLUTTER_ERROR_INVALID_HANDLE
        \<and> num_outputs out = 0 \<and> outputs out = (\<lambda>i. None))
   \<and> (\<exists>out. et_flutter_forward (Some model_data) None w = Some (out, w)
        \<and> code (error out) = ET_FLUTTER_ERROR_INVALID_ARGUMENT
        \<and> num_outputs out = 0 \<and> outputs out = (\<lambda>i. None))
   \<and> (sint (num_inputs inp) \<le> 0 \<longrightarrow>
        (\<exists>out. et_flutter_forward (Some model_data) (Some inp) w = Some (out, w)
           \<and> code (error out) = ET_FLUTTER_ERROR_INVALID_ARGUMENT
           \<and> num_outputs out = 0 \<and> outputs out = (\<lambda>i. None)))"
  by (simp add: et_flutter_forward_def set_error_fields_code zero_output_fields)

theorem forward_rejects_before_engine_witness:
  "sint (num_inputs empty_input) \<le> 0
   \<and> (\<exists>out. et_flutter_forward (Some no_output_model) (Some empty_input) empty_world
               = Some (out, empty_world)
        \<and> code (error out) = ET_FLUTTER_ERROR_INVALID_ARGUMENT
        \<and> num_outputs out = 0)
   \<and> sint (num_inputs (empty_input\<lparr>num_inputs := - 1\<rparr>)) \<le> 0
   \<and> (\<exists>out. et_flutter_forward (Some no_output_model) (Some (empty_input\<lparr>num_inputs := - 1\<rparr>)) empty_world
               = Some (out, empty_world)
        \<and> code (error out) = ET_FLUTTER_ERROR_INVALID_ARGUMENT
        \<and> num_outputs out = 0)"
proof -
  have h: "sint (num_inputs empty_input) \<le> 0" "sint (num_inputs (empty_input\<lparr>num_inputs := - 1\<rparr>)) \<le> 0"
    by (simp_all add: empty_input_def)
  show ?thesis
    using h
      forward_rejects_before_engine [of None empty_world no_output_model empty_input]
      forward_rejects_before_engine [of None empty_world no_output_model "empty_input\<lparr>num_inputs := - 1\<rparr>"]
    by blast
qed

lemma convert_outputs_skip:
  "\<not> isTensor v \<Longrightarrow> i < ET_FLUTTER_MAX_OUTPUTS \<Longrightarrow>
     convert_outputs (v # vs) i out w = convert_outputs vs (Suc i) out w"
  by (cases v) simp_all

lemma isTensor_iff: "isTensor v \<longleftrightarrow> (\<exists>t. v = EValue_Tensor t)"
  by (cases v) simp_all

lemma convert_outputs_success:
  assumes "convert_outputs vs i out w = Some (out', w')"
    and "code (error out') = ET_FLUTTER_SUCCESS"
  shows "num_outputs out' = num_outputs out
    \<and> (\<forall>j. j < i \<or> i + length vs \<le> j \<or> ET_FLUTTER_MAX_OUTPUTS \<le> j \<or> \<not> isTensor (vs ! (j - i))
          \<longrightarrow> outputs out' j = outputs out j)
    \<and> (\<forall>j. i \<le> j \<and> j < i + length vs \<and> j < ET_FLUTTER_MAX_OUTPUTS \<and> isTensor (vs ! (j - i))
          \<longrightarrow> outputs out' j \<noteq> None)"
  using assms
proof (induction vs arbitrary: i out w)
  case Nil
  then show ?case by auto
next
  case (Cons v vs)
  show ?case
  proof (cases "i < ET_FLUTTER_MAX_OUTPUTS")
    case False
    with Cons.prems show ?thesis by auto
  next
    case True
    show ?thesis
    proof (cases "isTensor v")
      case tens: True
      then obtain t where EValue_Tensor: "v = EValue_Tensor t"
        using isTensor_iff by blast
      from Cons.prems True EValue_Tensor obtain p w1 where
        c: "convert_from_executorch_tensor t w = Some (Some p, w1)"
        and r: "convert_outputs vs (Suc i) (out\<lparr>outputs := (outputs out)(i := Some p)\<rparr>) w1 = Some (out', w')"
        by (auto simp add: set_error_fields_code split: option.splits prod.splits)
      note ih = Cons.IH [OF r Cons.prems(2)]
      have n: "num_outputs out' = num_outputs out"
        using ih by simp
      have ihk: "outputs out' j = ((outputs out)(i := Some p)) j"
        if "j < Suc i \<or> Suc i + length vs \<le> j \<or> ET_FLUTTER_MAX_OUTPUTS \<le> j \<or> \<not> isTensor (vs ! (j - Suc i))" for j
        using ih that by (metis ETFlutterForwardOutput.select_convs(3) ETFlutterForwardOutput.surjective ETFlutterForwardOutput.update_convs(3))
      have keep: "outputs out' j = outputs out j"
        if "j < i \<or> i + length (v # vs) \<le> j \<or> ET_FLUTTER_MAX_OUTPUTS \<le> j \<or> \<not> isTensor ((v # vs) ! (j - i))" for j
      proof -
        have ne: "j \<noteq> i" using that EValue_Tensor True by auto
        have "j < Suc i \<or> Suc i + length vs \<le> j \<or> ET_FLUTTER_MAX_OUTPUTS \<le> j \<or> \<not> isTensor (vs ! (j - Suc i))"
          using that ne by (cases "j < i") (auto simp add: nth_Cons' Suc_diff_le split: if_splits)
        from ihk [OF this] ne show ?thesis by simp
      qed
      have populated: "outputs out' j \<noteq> None"
        if "i \<le> j \<and> j < i + length (v # vs) \<and> j < ET_FLUTTER_MAX_OUTPUTS \<and> isTensor ((v # vs) ! (j - i))" for j
      proof (cases "j = i")
        case True
        then have "outputs out' j = ((outputs out)(i := Some p)) j" using ihk [of j] by simp
        then show ?thesis using True by simp
      next
        case False
        then have "Suc i \<le> j \<and> j < Suc i + length vs \<and> j < ET_FLUTTER_MAX_OUTPUTS \<and> isTensor (vs ! (j - Suc i))"
          using that by (auto simp add: nth_Cons' Suc_diff_le split: if_splits)
        then show ?thesis using ih by blast
      qed
      show ?thesis using n keep populated by blast
    next
      case False
      with Cons.prems True have r: "convert_outputs vs (Suc i) out w = Some (out', w')"
        by (simp add: convert_outputs_skip del: convert_outputs.simps)
      note ih = Cons.IH [OF r Cons.prems(2)]
      have n: "num_outputs out' = num_outputs out"
        using ih by simp
      have keep: "outputs out' j = outputs out j"
        if "j < i \<or> i + length (v # vs) \<le> j \<or> ET_FLUTTER_MAX_OUTPUTS \<le> j \<or> \<not> isTensor ((v # vs) ! (j - i))" for j
      proof (cases "j = i")
        case True
        then show ?thesis using ih by blast
      next
        case ne: False
        have "j < Suc i \<or> Suc i + length vs \<le> j \<or> ET_FLUTTER_MAX_OUTPUTS \<le> j \<or> \<not> isTensor (vs ! (j - Suc i))"
          using that ne by (cases "j < i") (auto simp add: nth_Cons' Suc_diff_le split: if_splits)
        then show ?thesis using ih by blast
      qed
      have populated: "outputs out' j \<noteq> None"
        if "i \<le> j \<and> j < i + length (v # vs) \<and> j < ET_FLUTTER_MAX_OUTPUTS \<and> isTensor ((v # vs) ! (j - i))" for j
      proof -
        have "j \<noteq> i" using that False by auto
        then have "Suc i \<le> j \<and> j < Suc i + length vs \<and> j < ET_FLUTTER_MAX_OUTPUTS \<and> isTensor (vs ! (j - Suc i))"
          using that by (auto simp add: nth_Cons' Suc_diff_le split: if_splits)
        then show ?thesis using ih by blast
      qed
      show ?thesis using n keep populated by blast
    qed
  qed
qed

lemma lookup_Some_less: "lookup h a = Some b \<Longrightarrow> a < length h"
  by (simp add: lookup_def split: if_splits)

lemma same_blocks_refl: "same_blocks h h"
  by (simp add: same_blocks_def)

lemma same_blocks_trans: "same_blocks h h' \<Longrightarrow> same_blocks h' h'' \<Longrightarrow> same_blocks h h''"
  by (simp add: same_blocks_def)

lemma same_blocks_append_None: "same_blocks h (h @ replicate n None)"
  by (auto simp add: same_blocks_def lookup_def nth_append)

lemma free_length: "free p h = Some h' \<Longrightarrow> length h' = length h"
  by (auto simp add: free_def split: option.splits if_splits)

lemma free_frame: "free p h = Some h' \<Longrightarrow> free p (h @ xs) = Some (h' @ xs)"
  by (auto simp add: free_def lookup_def nth_append list_update_append split: option.splits if_splits)

lemma read_struct_frame: "read_struct h p = Some t \<Longrightarrow> read_struct (h @ xs) p = Some t"
  by (auto simp add: read_struct_def lookup_def nth_append split: option.splits if_splits block.splits)

lemma read_bytes_frame: "read_bytes h p n = Some bs \<Longrightarrow> read_bytes (h @ xs) p n = Some bs"
  by (auto simp add: read_bytes_def lookup_def nth_append split: option.splits if_splits block.splits)

lemma free_allocated_length: "free_allocated outs js h = Some h' \<Longrightarrow> length h' = length h"
proof (induction js arbitrary: h)
  case Nil
  then show ?case by simp
next
  case (Cons j js)
  then show ?case
    by (auto split: if_splits option.splits dest!: free_length)
qed

lemma free_allocated_frame:
  "free_allocated outs js h = Some h' \<Longrightarrow> free_allocated outs js (h @ xs) = Some (h' @ xs)"
proof (induction js arbitrary: h)
  case Nil
  then show ?case by simp
next
  case (Cons j js)
  then show ?case
    by (auto split: if_splits option.splits simp add: read_struct_frame free_frame)
qed

lemma free_allocated_cong:
  "(\<And>j. j \<in> set js \<Longrightarrow> outs j = outs' j) \<Longrightarrow> free_allocated outs js h = free_allocated outs' js h"
  by (induction js arbitrary: h) (auto split: option.splits)

lemma free_allocated_append:
  "free_allocated outs (js @ ks) h =
     (case free_allocated outs js h of None \<Rightarrow> None | Some h' \<Rightarrow> free_allocated outs ks h')"
  by (induction js arbitrary: h) (auto split: option.splits)

lemma malloc_cases:
  "malloc b w = (p, w') \<Longrightarrow>
     engine_calls w' = engine_calls w
     \<and> ((p = None \<and> mem w' = mem w)
        \<or> (p = Some (length (mem w)) \<and> mem w' = mem w @ [Some b]))"
  by (auto simp add: malloc_def split: list.splits if_splits)

lemma malloc_script_after: "malloc b w = (p, w') \<Longrightarrow> malloc_script w' = tl (malloc_script w)"
  by (auto simp add: malloc_def split: list.splits if_splits)

lemma malloc_fails:
  "malloc_script w = False # rest \<Longrightarrow> malloc b w = (None, w\<lparr>malloc_script := rest\<rparr>)"
  by (simp add: malloc_def)

lemma free_last: "free (Some (length h)) (h @ [Some b]) = Some (h @ [None])"
  by (simp add: free_def lookup_def)

lemma memcpy_fresh:
  assumes "memcpy (h @ [Some (TensorStruct z), Some (Bytes (replicate n 0))]) (Some (Suc (length h))) src n
             = Some h1"
  shows "\<exists>bs. read_bytes h src n = Some bs \<and> h1 = h @ [Some (TensorStruct z), Some (Bytes bs)]"
proof -
  let ?h2 = "h @ [Some (TensorStruct z), Some (Bytes (replicate n 0))]"
  from assms obtain bs where
    ne: "src \<noteq> Some (Suc (length h))"
    and rd: "read_bytes ?h2 src n = Some bs"
    and wr: "write_bytes ?h2 (Some (Suc (length h))) bs = Some h1"
    by (auto simp add: memcpy_def split: if_splits Option.bind_splits)
  from rd obtain a where a: "src = Some a"
    by (cases src) (simp_all add: read_bytes_def)
  have len: "length bs = n"
    using rd a by (auto simp add: read_bytes_def split: option.splits block.splits if_splits)
  have "a < length h"
  proof (rule ccontr)
    assume "\<not> a < length h"
    then consider "a = length h" | "a = Suc (length h)" | "Suc (length h) < a"
      by linarith
    then show False
    proof cases
      case 1
      then show ?thesis using rd a by (simp add: read_bytes_def lookup_def nth_append)
    next
      case 2
      then show ?thesis using ne a by simp
    next
      case 3
      then show ?thesis using rd a by (simp add: read_bytes_def lookup_def)
    qed
  qed
  then have "read_bytes h src n = Some bs"
    using rd a by (simp add: read_bytes_def lookup_def nth_append)
  moreover have "h1 = h @ [Some (TensorStruct z), Some (Bytes bs)]"
    using wr len by (auto simp add: write_bytes_def lookup_def nth_append list_update_append split: if_splits)
  ultimately show ?thesis by blast
qed

lemma c_str_update_0: "c_str (xs[0 := CHR 0x00]) = []"
  by (cases xs) (simp_all add: c_str_def)

lemma write_struct_fresh:
  "write_struct (h @ [Some (TensorStruct z), b]) (Some (length h)) st
     = Some (h @ [Some (TensorStruct st), b])"
  by (simp add: write_struct_def lookup_def nth_append list_update_append)

lemma convert_from_cases:
  assumes "convert_from_executorch_tensor t w = Some (p, w')"
  shows "engine_calls w' = engine_calls w
    \<and> ((p = None \<and> (mem w' = mem w \<or> mem w' = mem w @ [None]))
       \<or> (\<exists>st bs. p = Some (length (mem w))
             \<and> mem w' = mem w @ [Some (TensorStruct st), Some (Bytes bs)]
             \<and> data st = Some (Suc (length (mem w)))
             \<and> converted t (mem w) st bs))"
proof -
  obtain r w1 where m1: "malloc (TensorStruct zero_tensor) w = (r, w1)"
    by (cases "malloc (TensorStruct zero_tensor) w")
  note c1 = malloc_cases [OF m1]
  show ?thesis
  proof (cases r)
    case None
    with assms m1 c1 show ?thesis
      by (simp add: convert_from_executorch_tensor_def)
  next
    case (Some result)
    with c1 have result: "result = length (mem w)" and mem1: "mem w1 = mem w @ [Some (TensorStruct zero_tensor)]"
      and ec1: "engine_calls w1 = engine_calls w"
      by simp_all
    have alive: "impl_alive t"
    proof (rule ccontr)
      assume "\<not> impl_alive t"
      then have "convert_from_executorch_tensor t w = None"
        by (simp add: convert_from_executorch_tensor_def m1 Some)
      with assms show False by simp
    qed
    show ?thesis
    proof (cases "dtype_of_scalar_type (scalar_type t)")
      case None
      then have "convert_from_executorch_tensor t w = Some (None, w1\<lparr>mem := mem w @ [None]\<rparr>)"
        by (simp add: convert_from_executorch_tensor_def m1 Some alive mem1 result free_last)
      with assms ec1 show ?thesis by auto
    next
      case dt: (Some dt)
      let ?r1 = "zero_tensor\<lparr>dtype := dt,
                            shape := \<lparr>num_dims = of_nat (length (sizes t)),
                                      dims = copy_dims (sizes t)\<rparr>\<rparr>"
      have "et_flutter_tensor_data_size (Some ?r1) \<noteq> None"
      proof
        assume "et_flutter_tensor_data_size (Some ?r1) = None"
        then have "convert_from_executorch_tensor t w = None"
          by (simp add: convert_from_executorch_tensor_def m1 Some alive dt Let_def)
        with assms show False by simp
      qed
      then obtain sz where sz: "et_flutter_tensor_data_size (Some ?r1) = Some sz"
        by blast
      obtain d w2 where m2: "malloc (Bytes (replicate (unat sz) 0)) w1 = (d, w2)"
        by (cases "malloc (Bytes (replicate (unat sz) 0)) w1")
      note c2 = malloc_cases [OF m2]
      show ?thesis
      proof (cases d)
        case None
        with c2 mem1 have "mem w2 = mem w @ [Some (TensorStruct zero_tensor)]"
          and ec2: "engine_calls w2 = engine_calls w1"
          by simp_all
        then have "convert_from_executorch_tensor t w = Some (None, w2\<lparr>mem := mem w @ [None]\<rparr>)"
          by (simp add: convert_from_executorch_tensor_def m1 Some alive dt sz m2 None Let_def result free_last)
        with assms ec1 ec2 show ?thesis by auto
      next
        case dd: (Some da)
        with c2 mem1 have da: "da = Suc (length (mem w))"
          and mem2: "mem w2 = mem w @ [Some (TensorStruct zero_tensor), Some (Bytes (replicate (unat sz) 0))]"
          and ec2: "engine_calls w2 = engine_calls w1"
          by simp_all
        let ?st = "?r1\<lparr>data_size := sz, data := Some da, name := (name ?r1)[0 := NUL]\<rparr>"
        have eq: "convert_from_executorch_tensor t w =
            (case memcpy (mem w2) (Some da) (const_data_ptr t) (unat sz) of
               None \<Rightarrow> None
             | Some h1 \<Rightarrow>
                 (case write_struct h1 (Some result) ?st of
                    None \<Rightarrow> None
                  | Some h2 \<Rightarrow> Some (Some result, w2\<lparr>mem := h2\<rparr>)))"
          by (simp add: convert_from_executorch_tensor_def m1 Some alive dt sz m2 dd Let_def
              split: option.splits)
        obtain h1 where cp: "memcpy (mem w2) (Some da) (const_data_ptr t) (unat sz) = Some h1"
        proof (cases "memcpy (mem w2) (Some da) (const_data_ptr t) (unat sz)")
          case None
          with assms eq show ?thesis by simp
        next
          case (Some a)
          then show ?thesis using that by simp
        qed
        obtain h2 where ws: "write_struct h1 (Some result) ?st = Some h2"
        proof (cases "write_struct h1 (Some result) ?st")
          case None
          with assms eq cp show ?thesis by simp
        next
          case (Some a)
          then show ?thesis using that by simp
        qed
        have res: "p = Some result \<and> w' = w2\<lparr>mem := h2\<rparr>"
          using assms eq cp ws by simp
        from memcpy_fresh [OF cp [unfolded mem2 da]] obtain bs where
          rd: "read_bytes (mem w) (const_data_ptr t) (unat sz) = Some bs"
          and h1: "h1 = mem w @ [Some (TensorStruct zero_tensor), Some (Bytes bs)]"
          by blast
        from ws have h2: "h2 = mem w @ [Some (TensorStruct ?st), Some (Bytes bs)]"
          unfolding h1 result write_struct_fresh by simp
        have "converted t (mem w) ?st bs"
          using dt sz rd
          by (simp add: converted_def et_flutter_tensor_data_size_def c_str_update_0)
        then show ?thesis
          using res h2 result da ec1 ec2 by auto
      qed
    qed
  qed
qed

lemma same_blocks_append_None1: "same_blocks h0 h \<Longrightarrow> same_blocks h0 (h @ [None])"
proof -
  assume a: "same_blocks h0 h"
  have "same_blocks h (h @ replicate 1 None)"
    by (rule same_blocks_append_None)
  then have "same_blocks h (h @ [None])"
    by simp
  with a show ?thesis
    by (rule same_blocks_trans)
qed

lemma same_blocks_append_None2: "same_blocks h0 h \<Longrightarrow> same_blocks h0 (h @ [None, None])"
  using same_blocks_append_None1 [of h0 "h @ [None]"] same_blocks_append_None1 [of h0 h] by simp

lemma free_allocated_pair:
  assumes "i < ET_FLUTTER_MAX_OUTPUTS" "outs i = Some (length h)" "data st = Some (Suc (length h))"
  shows "free_allocated outs [i] (h @ [Some (TensorStruct st), Some (Bytes bs)]) = Some (h @ [None, None])"
proof -
  have r: "read_struct (h @ [Some (TensorStruct st), Some (Bytes bs)]) (Some (length h)) = Some st"
    by (simp add: read_struct_def lookup_def nth_append)
  have f1: "free (Some (Suc (length h))) (h @ [Some (TensorStruct st), Some (Bytes bs)])
      = Some (h @ [Some (TensorStruct st), None])"
    by (simp add: free_def lookup_def nth_append list_update_append)
  have f2: "free (Some (length h)) (h @ [Some (TensorStruct st), None]) = Some (h @ [None, None])"
    by (simp add: free_def lookup_def nth_append list_update_append)
  show ?thesis
    using assms by (simp add: r f1 f2)
qed

lemma cleanup_inv_step_tensor:
  assumes inv: "cleanup_inv h0 outs i h" and i: "i < ET_FLUTTER_MAX_OUTPUTS"
    and st: "data st = Some (Suc (length h))"
  shows "cleanup_inv h0 (outs(i := Some (length h))) (Suc i)
           (h @ [Some (TensorStruct st), Some (Bytes bs)])"
proof -
  from inv obtain h' where none: "\<forall>j\<ge>i. outs j = None"
    and fr: "free_allocated outs [0..<i] h = Some h'" and sb: "same_blocks h0 h'"
    unfolding cleanup_inv_def by blast
  let ?outs = "outs(i := Some (length h))"
  let ?ext = "[Some (TensorStruct st), Some (Bytes bs)]"
  have len: "length h' = length h"
    using fr by (rule free_allocated_length)
  have "free_allocated ?outs [0..<i] h = Some h'"
    using fr free_allocated_cong [of "[0..<i]" ?outs outs h] by simp
  then have a: "free_allocated ?outs [0..<i] (h @ ?ext) = Some (h' @ ?ext)"
    by (rule free_allocated_frame)
  have b: "free_allocated ?outs [i] (h' @ ?ext) = Some (h' @ [None, None])"
    by (rule free_allocated_pair) (use i st len in simp_all)
  have "free_allocated ?outs [0..<Suc i] (h @ ?ext) = Some (h' @ [None, None])"
    using a b by (simp add: free_allocated_append del: free_allocated.simps)
  moreover have "same_blocks h0 (h' @ [None, None])"
    using sb by (rule same_blocks_append_None2)
  moreover have "\<forall>j\<ge>Suc i. ?outs j = None"
    using none by simp
  ultimately show ?thesis
    unfolding cleanup_inv_def by blast
qed

lemma cleanup_inv_step_skip:
  assumes inv: "cleanup_inv h0 outs i h" and i: "i < ET_FLUTTER_MAX_OUTPUTS"
  shows "cleanup_inv h0 outs (Suc i) h"
proof -
  from inv obtain h' where none: "\<forall>j\<ge>i. outs j = None"
    and fr: "free_allocated outs [0..<i] h = Some h'" and sb: "same_blocks h0 h'"
    unfolding cleanup_inv_def by blast
  have "outs i = None" using none by simp
  then have "free_allocated outs [i] h' = Some h'"
    using i by simp
  then have "free_allocated outs [0..<Suc i] h = Some h'"
    using fr by (simp add: free_allocated_append del: free_allocated.simps)
  then show ?thesis
    unfolding cleanup_inv_def using none sb by auto
qed

lemma cleanup_inv_failed:
  assumes inv: "cleanup_inv h0 outs i h" and m: "h1 = h \<or> h1 = h @ [None]"
  shows "\<exists>h'. free_allocated (outs(i := None)) [0..<i] h1 = Some h' \<and> same_blocks h0 h'"
proof -
  from inv obtain h' where fr: "free_allocated outs [0..<i] h = Some h'" and sb: "same_blocks h0 h'"
    unfolding cleanup_inv_def by blast
  have c: "free_allocated (outs(i := None)) [0..<i] h = Some h'"
    using fr free_allocated_cong [of "[0..<i]" "outs(i := None)" outs h] by simp
  from m show ?thesis
  proof
    assume "h1 = h"
    then show ?thesis using c sb by blast
  next
    assume "h1 = h @ [None]"
    then have "free_allocated (outs(i := None)) [0..<i] h1 = Some (h' @ [None])"
      using free_allocated_frame [OF c] by simp
    then show ?thesis using sb same_blocks_append_None1 by blast
  qed
qed

lemma convert_outputs_tensor_failed:
  assumes "i < ET_FLUTTER_MAX_OUTPUTS"
    and "convert_from_executorch_tensor t w = Some (None, w1)"
    and "free_allocated ((outputs out)(i := None)) [0..<i] (mem w1) = Some h"
  shows "convert_outputs (EValue_Tensor t # vs) i out w =
     Some (out\<lparr>outputs := (outputs out)(i := None),
                error := set_error_fields (error out) ET_FLUTTER_ERROR_MEMORY
                           (''Failed to allocate output tensor '' @ show_nat i),
                num_outputs := 0\<rparr>,
           w1\<lparr>mem := h\<rparr>)"
  using assms by simp

lemma convert_outputs_tensor_ok:
  assumes "i < ET_FLUTTER_MAX_OUTPUTS"
    and "convert_from_executorch_tensor t w = Some (Some p, w1)"
  shows "convert_outputs (EValue_Tensor t # vs) i out w =
     convert_outputs vs (Suc i) (out\<lparr>outputs := (outputs out)(i := Some p)\<rparr>) w1"
  using assms by simp

lemma convert_outputs_tensor_undefined:
  assumes "i < ET_FLUTTER_MAX_OUTPUTS"
    and "convert_from_executorch_tensor t w = None"
  shows "convert_outputs (EValue_Tensor t # vs) i out w = None"
  using assms by simp

lemma convert_outputs_full:
  "\<not> i < ET_FLUTTER_MAX_OUTPUTS \<Longrightarrow> convert_outputs vs i out w = Some (out, w)"
  by (cases vs) simp_all

lemma convert_outputs_failure:
  assumes "convert_outputs vs i out w = Some (out', w')"
    and "code (error out') \<noteq> ET_FLUTTER_SUCCESS"
    and "code (error out) = ET_FLUTTER_SUCCESS"
    and "cleanup_inv h0 (outputs out) i (mem w)"
  shows "code (error out') = ET_FLUTTER_ERROR_MEMORY \<and> num_outputs out' = 0
    \<and> same_blocks h0 (mem w') \<and> engine_calls w' = engine_calls w"
  using assms
proof (induction vs arbitrary: i out w)
  case Nil
  then show ?case by simp
next
  case (Cons v vs)
  show ?case
  proof (cases "i < ET_FLUTTER_MAX_OUTPUTS")
    case False
    then have "convert_outputs (v # vs) i out w = Some (out, w)"
      by (rule convert_outputs_full)
    with Cons.prems show ?thesis by simp
  next
    case i: True
    show ?thesis
    proof (cases "isTensor v")
      case False
      with Cons.prems(1) i have r: "convert_outputs vs (Suc i) out w = Some (out', w')"
        by (simp add: convert_outputs_skip del: convert_outputs.simps)
      from Cons.IH [OF r Cons.prems(2,3) cleanup_inv_step_skip [OF Cons.prems(4) i]]
      show ?thesis .
    next
      case True
      then obtain t where v: "v = EValue_Tensor t"
        using isTensor_iff by blast
      show ?thesis
      proof (cases "convert_from_executorch_tensor t w")
        case None
        with Cons.prems(1) i v show ?thesis
          by (simp add: convert_outputs_tensor_undefined del: convert_outputs.simps)
      next
        case (Some r)
        obtain p w1 where r: "r = (p, w1)" by (cases r)
        note cases = convert_from_cases [OF Some [unfolded r]]
        show ?thesis
        proof (cases p)
          case None
          with cases have m: "mem w1 = mem w \<or> mem w1 = mem w @ [None]"
            and ec: "engine_calls w1 = engine_calls w"
            by auto
          from cleanup_inv_failed [OF Cons.prems(4) m] obtain h where
            fr: "free_allocated ((outputs out)(i := None)) [0..<i] (mem w1) = Some h"
            and sb: "same_blocks h0 h"
            by blast
          from Cons.prems(1) show ?thesis
            unfolding v convert_outputs_tensor_failed [OF i Some [unfolded r None] fr]
            using sb ec by (auto simp add: set_error_fields_code)
        next
          case (Some a)
          with cases obtain st bs where a: "a = length (mem w)"
            and m: "mem w1 = mem w @ [Some (TensorStruct st), Some (Bytes bs)]"
            and d: "data st = Some (Suc (length (mem w)))"
            and ec: "engine_calls w1 = engine_calls w"
            by auto
          have rec: "convert_outputs vs (Suc i) (out\<lparr>outputs := (outputs out)(i := Some a)\<rparr>) w1
              = Some (out', w')"
            using Cons.prems(1) convert_outputs_tensor_ok [OF i \<open>convert_from_executorch_tensor t w = Some r\<close> [unfolded r Some]]
            unfolding v by simp
          have inv: "cleanup_inv h0 (outputs (out\<lparr>outputs := (outputs out)(i := Some a)\<rparr>)) (Suc i) (mem w1)"
            using cleanup_inv_step_tensor [OF Cons.prems(4) i d, of bs] a m by simp
          have c: "code (error (out\<lparr>outputs := (outputs out)(i := Some a)\<rparr>)) = ET_FLUTTER_SUCCESS"
            using Cons.prems(3) by simp
          from Cons.IH [OF rec Cons.prems(2) c inv] ec show ?thesis by simp
        qed
      qed
    qed
  qed
qed

lemma one_input_converted:
  "convert_inputs one_input [0..<nat (sint (num_inputs one_input))] []
     = Some (Inr [EValue_Tensor \<lparr>scalar_type = ScalarType_Byte, sizes = [4],
                                 const_data_ptr = Some 0, impl_alive = False\<rparr>])"
  by (simp add: one_input_def byte_tensor_def convert_to_executorch_tensor_def scalar_type_of_dtype_def)

lemmas run_simps =
  convert_from_executorch_tensor_def malloc_def dtype_of_scalar_type_def
  et_flutter_tensor_data_size_def copy_dims_def et_flutter_dtype_size_def memcpy_def read_bytes_def
  write_bytes_def write_struct_def lookup_def zero_output_def read_struct_def free_def zero_tensor_def

lemma run_fail:
  "map_option (\<lambda>(out, w'). (code (error out), num_outputs out, mem w'))
     (et_flutter_forward (Some (repeating_model 2)) (Some one_input)
        (host_world\<lparr>malloc_script := [True, True, False]\<rparr>))
    = Some (ET_FLUTTER_ERROR_MEMORY, 0, [Some (Bytes [1, 2, 3, 4]), None, None])"
  apply (simp add: et_flutter_forward_def one_input_converted)
  apply (simp add: one_input_def repeating_model_def engine_tensor_def host_world_def numeral_2_eq_2)
  apply (simp add: run_simps set_error_fields_code)
  done

lemma replicate_17: "replicate 17 x = [x,x,x,x,x,x,x,x,x,x,x,x,x,x,x,x,x]"
  by (simp add: numeral_eq_Suc)

lemma free_outputs_out_of_bounds:
  "\<exists>i\<in>set is. \<not> i < ET_FLUTTER_MAX_OUTPUTS \<Longrightarrow> free_outputs outs is h = None"
  by (induction "is" arbitrary: h) (auto split: option.splits)

lemma free_forward_output_out_of_bounds:
  assumes "int ET_FLUTTER_MAX_OUTPUTS < sint (num_outputs out)"
  shows "et_flutter_free_forward_output (Some out) h = None"
proof -
  have "16 \<in> set [0..<nat (sint (num_outputs out))]"
    using assms by simp
  then have "free_outputs (outputs out) [0..<nat (sint (num_outputs out))] h = None"
    by (intro free_outputs_out_of_bounds) (rule bexI [of _ 16], simp_all)
  then show ?thesis
    by (simp add: et_flutter_free_forward_output_def)
qed

lemma run_17:
  "map_option (\<lambda>(out, w'). (code (error out), num_outputs out))
     (et_flutter_forward (Some (repeating_model 17)) (Some one_input) host_world)
    = Some (ET_FLUTTER_SUCCESS, 17)"
  apply (simp add: et_flutter_forward_def one_input_converted)
  apply (simp add: one_input_def repeating_model_def engine_tensor_def host_world_def replicate_17)
  apply (simp add: run_simps)
  done

text \<open>
  C1. The claim asks that \<^verbatim>\<open>num_outputs\<close> never exceeds 16 and that the later
  \<^verbatim>\<open>et_flutter_free_forward_output\<close> stays inside the 16 slots. The conversion loop
  stops at 16, but \<^verbatim>\<open>num_outputs\<close> is set to the engine's count before the loop and is
  not clamped: with an engine that returns 17 tensors the call succeeds with
  \<^verbatim>\<open>num_outputs\<close> 17, and freeing that output reads \<^verbatim>\<open>outputs[16]\<close>, outside the
  array.
\<close>

theorem forward_returns_17_outputs:
  "\<exists>out w'. et_flutter_forward (Some (repeating_model 17)) (Some one_input) host_world = Some (out, w')
      \<and> code (error out) = ET_FLUTTER_SUCCESS
      \<and> num_outputs out = 17
      \<and> et_flutter_free_forward_output (Some out) (mem w') = None"
proof -
  from run_17 obtain out w' where
    r: "et_flutter_forward (Some (repeating_model 17)) (Some one_input) host_world = Some (out, w')"
    and c: "code (error out) = ET_FLUTTER_SUCCESS" and n: "num_outputs out = 17"
    by auto
  have "et_flutter_free_forward_output (Some out) (mem w') = None"
    by (rule free_forward_output_out_of_bounds) (simp add: n)
  with r c n show ?thesis by blast
qed

lemma forward_conversion:
  assumes "0 < sint (num_inputs inp)"
    and "convert_inputs inp [0..<nat (sint (num_inputs inp))] [] = Some (Inr ins)"
    and "module model_data ins (mem w) = Forward_Ok outs"
  shows "et_flutter_forward (Some model_data) (Some inp) w =
     convert_outputs outs 0 (zero_output\<lparr>num_outputs := of_nat (length outs)\<rparr>)
       (w\<lparr>engine_calls := Suc (engine_calls w)\<rparr>)"
  using assms by (simp add: et_flutter_forward_def Let_def del: upt.simps)

lemma forward_MEMORY_from_conversion:
  assumes "et_flutter_forward model_handle input w = Some (out, w')"
    and "code (error out) = ET_FLUTTER_ERROR_MEMORY"
  shows "\<exists>outs. convert_outputs outs 0 (zero_output\<lparr>num_outputs := of_nat (length outs)\<rparr>)
       (w\<lparr>engine_calls := Suc (engine_calls w)\<rparr>) = Some (out, w')"
proof (cases model_handle)
  case None
  with assms show ?thesis
    by (auto simp add: et_flutter_forward_def set_error_fields_code)
next
  case md: (Some model_data)
  show ?thesis
  proof (cases input)
    case None
    with assms md show ?thesis
      by (auto simp add: et_flutter_forward_def set_error_fields_code)
  next
    case inp: (Some inp)
    show ?thesis
    proof (cases "sint (num_inputs inp) \<le> 0")
      case True
      with assms md inp show ?thesis
        by (auto simp add: et_flutter_forward_def set_error_fields_code)
    next
      case pos: False
      show ?thesis
      proof (cases "convert_inputs inp [0..<nat (sint (num_inputs inp))] []")
        case None
        with assms md inp pos show ?thesis
          by (simp add: et_flutter_forward_def del: upt.simps)
      next
        case (Some r)
        show ?thesis
        proof (cases r)
          case (Inl i)
          with assms md inp pos Some show ?thesis
            by (auto simp add: et_flutter_forward_def set_error_fields_code simp del: upt.simps)
        next
          case (Inr ins)
          show ?thesis
          proof (cases "module model_data ins (mem w)")
            case (Forward_Ok outs)
            with assms md inp pos Some Inr show ?thesis
              by (auto simp add: et_flutter_forward_def Let_def simp del: upt.simps)
          next
            case (Forward_Error c)
            with assms md inp pos Some Inr show ?thesis
              by (auto simp add: et_flutter_forward_def Let_def set_error_fields_code simp del: upt.simps)
          next
            case (Forward_Exception what)
            with assms md inp pos Some Inr show ?thesis
              by (auto simp add: et_flutter_forward_def Let_def set_error_fields_code simp del: upt.simps)
          qed
        qed
      qed
    qed
  qed
qed

lemma cleanup_inv_initial: "cleanup_inv h (outputs zero_output) 0 h"
  by (simp add: cleanup_inv_def zero_output_def same_blocks_refl)

text \<open>
  Whatever made a conversion return null (the struct allocation, the allocation of the data
  buffer, or a scalar type the wrapper does not map): when \<^verbatim>\<open>et_flutter_forward\<close>
  returns the code MEMORY, \<^verbatim>\<open>num_outputs\<close> is 0 and every address of the memory holds
  what it held before the call.
\<close>

lemma forward_memory_error_cleanup:
  assumes "et_flutter_forward model_handle input w = Some (out, w')"
    and "code (error out) = ET_FLUTTER_ERROR_MEMORY"
  shows "num_outputs out = 0 \<and> (\<forall>a. lookup (mem w') a = lookup (mem w) a)"
proof -
  from forward_MEMORY_from_conversion [OF assms] obtain outs where
    c: "convert_outputs outs 0 (zero_output\<lparr>num_outputs := of_nat (length outs)\<rparr>)
       (w\<lparr>engine_calls := Suc (engine_calls w)\<rparr>) = Some (out, w')"
    by blast
  have "cleanup_inv (mem w) (outputs (zero_output\<lparr>num_outputs := of_nat (length outs)\<rparr>)) 0
          (mem (w\<lparr>engine_calls := Suc (engine_calls w)\<rparr>))"
    using cleanup_inv_initial [of "mem w"] by simp
  from convert_outputs_failure [OF c _ _ this] assms(2)
  show ?thesis
    by (simp add: zero_output_def same_blocks_def)
qed

lemma forward_memory_error_cleanup_example:
  "\<exists>out w'. et_flutter_forward (Some (repeating_model 2)) (Some one_input)
        (host_world\<lparr>malloc_script := [True, True, False]\<rparr>) = Some (out, w')
     \<and> code (error out) = ET_FLUTTER_ERROR_MEMORY
     \<and> num_outputs out = 0
     \<and> (\<forall>a. lookup (mem w') a = lookup (mem (host_world\<lparr>malloc_script := [True, True, False]\<rparr>)) a)"
proof -
  from run_fail obtain out w' where
    r: "et_flutter_forward (Some (repeating_model 2)) (Some one_input)
        (host_world\<lparr>malloc_script := [True, True, False]\<rparr>) = Some (out, w')"
    and c: "code (error out) = ET_FLUTTER_ERROR_MEMORY"
    by auto
  from forward_memory_error_cleanup [OF r c] r c show ?thesis
    by blast
qed

section \<open>Conversion of the outputs the engine returns\<close>

lemma malloc_ok:
  assumes "list_all id (take (Suc k) (malloc_script w))"
  shows "\<exists>w1. malloc b w = (Some (length (mem w)), w1) \<and> mem w1 = mem w @ [Some b]
     \<and> list_all id (take k (malloc_script w1))"
proof (cases "malloc_script w")
  case Nil
  then show ?thesis by (simp add: malloc_def)
next
  case (Cons ok rest)
  with assms have "ok" and "list_all id (take k rest)"
    by simp_all
  with Cons show ?thesis by (simp add: malloc_def)
qed

lemma read_bytes_Some:
  assumes "read_bytes h p n = Some bs"
  shows "\<exists>a old. p = Some a \<and> a < length h \<and> lookup h a = Some (Bytes old) \<and> n \<le> length old
    \<and> bs = take n old \<and> length bs = n"
proof -
  from assms obtain a where p: "p = Some a"
    by (cases p) (simp_all add: read_bytes_def)
  from assms p obtain blk where l0: "lookup h a = Some blk"
    by (cases "lookup h a") (simp_all add: read_bytes_def)
  from assms p l0 obtain old where l: "lookup h a = Some (Bytes old)"
    by (cases blk) (simp_all add: read_bytes_def)
  from assms p l have n: "n \<le> length old" and b: "bs = take n old"
    by (simp_all add: read_bytes_def split: if_splits)
  have "a < length h"
    using l by (rule lookup_Some_less)
  with p l n b show ?thesis by simp
qed

lemma convert_from_succeeds:
  assumes dt: "dtype_of_scalar_type (scalar_type nt) = Some dt"
    and sz: "et_flutter_tensor_data_size
               (Some (zero_tensor\<lparr>dtype := dt,
                        shape := \<lparr>num_dims = of_nat (length (sizes nt)),
                                  dims = copy_dims (sizes nt)\<rparr>\<rparr>)) = Some sz"
    and rd: "read_bytes (mem w) (const_data_ptr nt) (unat sz) = Some bs"
    and al: "list_all id (take 2 (malloc_script w))"
    and alive: "impl_alive nt"
  shows "\<exists>w'. convert_from_executorch_tensor nt w = Some (Some (length (mem w)), w')
           \<and> malloc_script w' = tl (tl (malloc_script w))"
proof -
  let ?z = "TensorStruct zero_tensor"
  let ?b = "Bytes (replicate (unat sz) 0)"
  have "list_all id (take (Suc 1) (malloc_script w))"
    using al by (simp add: numeral_2_eq_2)
  from malloc_ok [OF this, of ?z] obtain w1 where
    m1: "malloc ?z w = (Some (length (mem w)), w1)" and mem1: "mem w1 = mem w @ [Some ?z]"
    and al1: "list_all id (take (Suc 0) (malloc_script w1))"
    by auto
  from malloc_ok [OF al1, of ?b] obtain w2 where
    m2: "malloc ?b w1 = (Some (length (mem w1)), w2)" and mem2: "mem w2 = mem w1 @ [Some ?b]"
    by auto
  from read_bytes_Some [OF rd] obtain a where a: "const_data_ptr nt = Some a" "a < length (mem w)"
    and len: "length bs = unat sz"
    by blast
  have rd2: "read_bytes (mem w2) (const_data_ptr nt) (unat sz) = Some bs"
    unfolding mem2 mem1 using read_bytes_frame [OF rd, of "[Some ?z, Some ?b]"] by simp
  have wr: "write_bytes (mem w2) (Some (Suc (length (mem w)))) bs
      = Some (mem w @ [Some ?z, Some (Bytes bs)])"
    unfolding mem2 mem1 using len
    by (simp add: write_bytes_def lookup_def nth_append list_update_append)
  have cp: "memcpy (mem w2) (Some (length (mem w1))) (const_data_ptr nt) (unat sz)
      = Some (mem w @ [Some ?z, Some (Bytes bs)])"
    using a rd2 wr by (simp add: memcpy_def mem1)
  have "malloc_script w2 = tl (tl (malloc_script w))"
    using malloc_script_after [OF m1] malloc_script_after [OF m2] by simp
  then show ?thesis
    by (simp add: convert_from_executorch_tensor_def m1 alive dt sz m2 cp write_struct_fresh Let_def)
qed

lemma native_ok_frame: "native_ok h t \<Longrightarrow> native_ok (h @ xs) t"
  by (auto simp add: native_ok_def read_bytes_frame split: option.splits)

lemma value_ok_frame: "value_ok h v \<Longrightarrow> value_ok (h @ xs) v"
  by (cases v) (simp_all add: native_ok_frame)

lemma native_ok_converts:
  assumes "native_ok (mem w) t" and "list_all id (take 2 (malloc_script w))"
  shows "\<exists>w' st bs. convert_from_executorch_tensor t w = Some (Some (length (mem w)), w')
     \<and> malloc_script w' = tl (tl (malloc_script w))
     \<and> engine_calls w' = engine_calls w
     \<and> mem w' = mem w @ [Some (TensorStruct st), Some (Bytes bs)]
     \<and> data st = Some (Suc (length (mem w)))"
proof -
  from assms(1) obtain dt sz bs where
    dt: "dtype_of_scalar_type (scalar_type t) = Some dt"
    and sz: "et_flutter_tensor_data_size
               (Some (zero_tensor\<lparr>dtype := dt,
                        shape := \<lparr>num_dims = of_nat (length (sizes t)),
                                  dims = copy_dims (sizes t)\<rparr>\<rparr>)) = Some sz"
    and rd: "read_bytes (mem w) (const_data_ptr t) (unat sz) = Some bs"
    by (auto simp add: native_ok_def split: option.splits)
  from assms(1) have alive: "impl_alive t"
    by (simp add: native_ok_def)
  from convert_from_succeeds [OF dt sz rd assms(2) alive] obtain w' where
    cf: "convert_from_executorch_tensor t w = Some (Some (length (mem w)), w')"
    and sc: "malloc_script w' = tl (tl (malloc_script w))"
    by blast
  from convert_from_cases [OF cf] sc cf show ?thesis
    by auto
qed

lemma struct_allocation_null:
  assumes "malloc_script w = False # rest"
  shows "convert_from_executorch_tensor t w = Some (None, w\<lparr>malloc_script := rest\<rparr>)"
  by (simp add: convert_from_executorch_tensor_def malloc_fails [OF assms])

lemma engine_tensor_ok: "native_ok (mem (host_world\<lparr>malloc_script := s\<rparr>)) engine_tensor"
  by (simp add: native_ok_def engine_tensor_def host_world_def dtype_of_scalar_type_def zero_tensor_def
      et_flutter_tensor_data_size_def copy_dims_def et_flutter_dtype_size_def read_bytes_def lookup_def)

section \<open>Non-tensor outputs\<close>

lemma sint_of_nat_small:
  assumes "n < 2 ^ 31"
  shows "sint (word_of_nat n :: 32 word) = int n"
proof -
  have "sint (word_of_nat n :: 32 word) = signed_take_bit 31 (int n)"
    by (simp add: signed_of_nat)
  also have "\<dots> = int n"
    using assms by (intro signed_take_bit_int_eq_self) simp_all
  finally show ?thesis .
qed

lemma tensor_count_Cons:
  "tensor_count (v # vs) = (if isTensor v then Suc (tensor_count vs) else tensor_count vs)"
  by (simp add: tensor_count_def)

lemma convert_outputs_all_converted:
  assumes "list_all (value_ok (mem w)) (take (ET_FLUTTER_MAX_OUTPUTS - i) vs)"
    and "list_all id (take (2 * tensor_count (take (ET_FLUTTER_MAX_OUTPUTS - i) vs)) (malloc_script w))"
    and "code (error out) = ET_FLUTTER_SUCCESS"
  shows "\<exists>out' w'. convert_outputs vs i out w = Some (out', w')
     \<and> code (error out') = ET_FLUTTER_SUCCESS \<and> engine_calls w' = engine_calls w"
  using assms
proof (induction vs arbitrary: i out w)
  case Nil
  then show ?case by simp
next
  case (Cons v vs)
  show ?case
  proof (cases "i < ET_FLUTTER_MAX_OUTPUTS")
    case False
    then have "convert_outputs (v # vs) i out w = Some (out, w)"
      by (rule convert_outputs_full)
    with Cons.prems(3) show ?thesis by simp
  next
    case i: True
    then obtain m where m: "ET_FLUTTER_MAX_OUTPUTS - i = Suc m" "ET_FLUTTER_MAX_OUTPUTS - Suc i = m"
      by (metis Suc_diff_Suc diff_Suc_eq_diff_pred diff_Suc_1)
    from Cons.prems(1) have okv: "value_ok (mem w) v" and okp: "list_all (value_ok (mem w)) (take m vs)"
      unfolding m by simp_all
    show ?thesis
    proof (cases "isTensor v")
      case False
      then have g: "list_all id (take (2 * tensor_count (take m vs)) (malloc_script w))"
        using Cons.prems(2) unfolding m by (simp add: tensor_count_Cons id_def)
      have eq: "convert_outputs (v # vs) i out w = convert_outputs vs (Suc i) out w"
        using False i by (simp add: convert_outputs_skip del: convert_outputs.simps)
      have okp': "list_all (value_ok (mem w)) (take (ET_FLUTTER_MAX_OUTPUTS - Suc i) vs)"
        unfolding m(2) by (rule okp)
      have g': "list_all id (take (2 * tensor_count (take (ET_FLUTTER_MAX_OUTPUTS - Suc i) vs))
                  (malloc_script w))"
        unfolding m(2) by (rule g)
      from Cons.IH [OF okp' g' Cons.prems(3)] show ?thesis
        unfolding eq .
    next
      case True
      then obtain u where v: "v = EValue_Tensor u"
        using isTensor_iff by blast
      let ?c = "tensor_count (take m vs)"
      have g: "list_all id (take (2 + 2 * ?c) (malloc_script w))"
        using Cons.prems(2) True unfolding m by (simp add: tensor_count_Cons id_def)
      have "take 2 (malloc_script w) = take 2 (take (2 + 2 * ?c) (malloc_script w))"
        by (simp add: min_def)
      then have g2: "list_all id (take 2 (malloc_script w))"
        using g by (metis list_all_iff in_set_takeD)
      from okv v have "native_ok (mem w) u" by simp
      from native_ok_converts [OF this g2] obtain w1 st bs where
        cf: "convert_from_executorch_tensor u w = Some (Some (length (mem w)), w1)"
        and sc: "malloc_script w1 = tl (tl (malloc_script w))"
        and ec: "engine_calls w1 = engine_calls w"
        and mm: "mem w1 = mem w @ [Some (TensorStruct st), Some (Bytes bs)]"
        by blast
      have sc': "malloc_script w1 = drop 2 (malloc_script w)"
        unfolding sc by (simp add: drop_Suc numeral_2_eq_2 drop_tl tl_drop)
      have g1: "list_all id (take (2 * ?c) (malloc_script w1))"
      proof -
        have "take (2 * ?c) (drop 2 (malloc_script w)) = drop 2 (take (2 + 2 * ?c) (malloc_script w))"
          by (simp add: drop_take)
        then show ?thesis
          unfolding sc' using g by (metis list_all_iff in_set_dropD)
      qed
      have ok1: "list_all (value_ok (mem w1)) (take m vs)"
        using okp unfolding mm list_all_iff by (auto intro: value_ok_frame)
      let ?out1 = "out\<lparr>outputs := (outputs out)(i := Some (length (mem w)))\<rparr>"
      have c1: "code (error ?out1) = ET_FLUTTER_SUCCESS"
        using Cons.prems(3) by simp
      have eq: "convert_outputs (v # vs) i out w = convert_outputs vs (Suc i) ?out1 w1"
        unfolding v using convert_outputs_tensor_ok [OF i cf] by simp
      have ok1': "list_all (value_ok (mem w1)) (take (ET_FLUTTER_MAX_OUTPUTS - Suc i) vs)"
        unfolding m(2) by (rule ok1)
      have g1': "list_all id (take (2 * tensor_count (take (ET_FLUTTER_MAX_OUTPUTS - Suc i) vs))
                   (malloc_script w1))"
        unfolding m(2) by (rule g1)
      from Cons.IH [OF ok1' g1' c1] ec show ?thesis
        unfolding eq by simp
    qed
  qed
qed

text \<open>
  C9. Let the engine return the values \<open>outs\<close>, tensors and other values in any order,
  let the tensors among the first 16 be convertible and the allocations for them succeed.
  Then \<^verbatim>\<open>et_flutter_forward\<close> returns SUCCESS: a value that is not a tensor raises no
  error, wherever it stands. \<^verbatim>\<open>num_outputs\<close> is the number of all native outputs (as a
  32-bit integer: the count itself below \<open>2 ^ 31\<close>), every output that is not a tensor has
  left its slot null, and every tensor among the first 16 has a struct in its slot; so the
  declared count exceeds the number of populated slots as soon as one output is not a
  tensor.
\<close>

theorem non_tensor_outputs_counted:
  assumes "0 < sint (num_inputs inp)"
    and "convert_inputs inp [0..<nat (sint (num_inputs inp))] [] = Some (Inr ins)"
    and "module model_data ins (mem w) = Forward_Ok outs"
    and "list_all (value_ok (mem w)) (take ET_FLUTTER_MAX_OUTPUTS outs)"
    and "list_all id (take (2 * tensor_count (take ET_FLUTTER_MAX_OUTPUTS outs)) (malloc_script w))"
  shows "\<exists>out w'. et_flutter_forward (Some model_data) (Some inp) w = Some (out, w')
      \<and> code (error out) = ET_FLUTTER_SUCCESS
      \<and> num_outputs out = of_nat (length outs)
      \<and> (length outs < 2 ^ 31 \<longrightarrow> sint (num_outputs out) = int (length outs))
      \<and> (\<forall>j. j < length outs \<and> \<not> isTensor (outs ! j) \<longrightarrow> outputs out j = None)
      \<and> (\<forall>j. j < length outs \<and> j < ET_FLUTTER_MAX_OUTPUTS \<and> isTensor (outs ! j)
             \<longrightarrow> outputs out j \<noteq> None)
      \<and> (\<forall>j. length outs \<le> j \<or> ET_FLUTTER_MAX_OUTPUTS \<le> j \<longrightarrow> outputs out j = None)"
proof -
  let ?out0 = "zero_output\<lparr>num_outputs := of_nat (length outs)\<rparr>"
  let ?w0 = "w\<lparr>engine_calls := Suc (engine_calls w)\<rparr>"
  have c0: "code (error ?out0) = ET_FLUTTER_SUCCESS"
    by (simp add: zero_output_def)
  have "\<exists>out' w'. convert_outputs outs 0 ?out0 ?w0 = Some (out', w')
     \<and> code (error out') = ET_FLUTTER_SUCCESS \<and> engine_calls w' = engine_calls ?w0"
    by (rule convert_outputs_all_converted) (use assms(4,5) c0 in simp_all)
  then obtain out w' where run: "convert_outputs outs 0 ?out0 ?w0 = Some (out, w')"
    and ok: "code (error out) = ET_FLUTTER_SUCCESS"
    by blast
  note s = convert_outputs_success [OF run ok]
  from s have n: "num_outputs out = of_nat (length outs)"
    by simp
  have n': "sint (num_outputs out) = int (length outs)" if "length outs < 2 ^ 31"
    unfolding n using that by (rule sint_of_nat_small)
  have keep: "outputs out j = None"
    if "j < 0 \<or> 0 + length outs \<le> j \<or> ET_FLUTTER_MAX_OUTPUTS \<le> j \<or> \<not> isTensor (outs ! (j - 0))" for j
  proof -
    have "outputs out j = outputs ?out0 j"
      using s that by blast
    then show ?thesis
      by (simp add: zero_output_def)
  qed
  have skip: "\<forall>j. j < length outs \<and> \<not> isTensor (outs ! j) \<longrightarrow> outputs out j = None"
    using keep by simp
  have beyond: "\<forall>j. length outs \<le> j \<or> ET_FLUTTER_MAX_OUTPUTS \<le> j \<longrightarrow> outputs out j = None"
    using keep by auto
  have pop: "\<forall>j. j < length outs \<and> j < ET_FLUTTER_MAX_OUTPUTS \<and> isTensor (outs ! j)
             \<longrightarrow> outputs out j \<noteq> None"
    using s by simp
  have "et_flutter_forward (Some model_data) (Some inp) w = Some (out, w')"
    unfolding forward_conversion [OF assms(1-3)] by (rule run)
  with ok n n' skip pop beyond show ?thesis
    by blast
qed

lemma engine_tensor_ok_host: "native_ok (mem host_world) engine_tensor"
  using engine_tensor_ok [of "[]"] by (simp add: host_world_def)

theorem non_tensor_outputs_counted_witness:
  "0 < sint (num_inputs one_input)
   \<and> (\<exists>ins outs. convert_inputs one_input [0..<nat (sint (num_inputs one_input))] [] = Some (Inr ins)
        \<and> module mixed_model ins (mem host_world) = Forward_Ok outs
        \<and> list_all (value_ok (mem host_world)) (take ET_FLUTTER_MAX_OUTPUTS outs)
        \<and> list_all id (take (2 * tensor_count (take ET_FLUTTER_MAX_OUTPUTS outs)) (malloc_script host_world))
        \<and> length outs = 3
        \<and> \<not> isTensor (outs ! 0) \<and> isTensor (outs ! 1) \<and> \<not> isTensor (outs ! 2))
   \<and> (\<exists>out w'. et_flutter_forward (Some mixed_model) (Some one_input) host_world = Some (out, w')
        \<and> code (error out) = ET_FLUTTER_SUCCESS
        \<and> sint (num_outputs out) = 3
        \<and> outputs out 0 = None \<and> outputs out 1 \<noteq> None \<and> outputs out 2 = None)"
proof -
  let ?d = "EValue_Tensor \<lparr>scalar_type = ScalarType_Byte, sizes = [4],
                                 const_data_ptr = Some 0, impl_alive = False\<rparr>"
  let ?outs = "[EValue_Int 7, EValue_Tensor engine_tensor, EValue_Bool True]"
  have p: "0 < sint (num_inputs one_input)"
    by (simp add: one_input_def)
  have m: "module mixed_model [?d] (mem host_world) = Forward_Ok ?outs"
    by (simp add: mixed_model_def)
  have e: "list_all (value_ok (mem host_world)) (take ET_FLUTTER_MAX_OUTPUTS ?outs)"
    using engine_tensor_ok_host by simp
  have a: "list_all id (take (2 * tensor_count (take ET_FLUTTER_MAX_OUTPUTS ?outs)) (malloc_script host_world))"
    by (simp add: host_world_def)
  from non_tensor_outputs_counted [OF p one_input_converted m e a] obtain out w' where
    r: "et_flutter_forward (Some mixed_model) (Some one_input) host_world = Some (out, w')"
    and c: "code (error out) = ET_FLUTTER_SUCCESS"
    and n: "length ?outs < 2 ^ 31 \<longrightarrow> sint (num_outputs out) = int (length ?outs)"
    and skip: "\<forall>j. j < length ?outs \<and> \<not> isTensor (?outs ! j) \<longrightarrow> outputs out j = None"
    and pop: "\<forall>j. j < length ?outs \<and> j < ET_FLUTTER_MAX_OUTPUTS \<and> isTensor (?outs ! j)
                 \<longrightarrow> outputs out j \<noteq> None"
    by (elim exE conjE) (rule that, assumption+)
  from n have "sint (num_outputs out) = 3"
    by simp
  moreover from skip [rule_format, of 0] have "outputs out 0 = None"
    by simp
  moreover from pop [rule_format, of 1] have "outputs out 1 \<noteq> None"
    by simp
  moreover from skip [rule_format, of 2] have "outputs out 2 = None"
    by simp
  ultimately have res: "\<exists>out w'. et_flutter_forward (Some mixed_model) (Some one_input) host_world = Some (out, w')
        \<and> code (error out) = ET_FLUTTER_SUCCESS
        \<and> sint (num_outputs out) = 3
        \<and> outputs out 0 = None \<and> outputs out 1 \<noteq> None \<and> outputs out 2 = None"
    using r c by blast
  have "\<exists>ins outs. convert_inputs one_input [0..<nat (sint (num_inputs one_input))] [] = Some (Inr ins)
        \<and> module mixed_model ins (mem host_world) = Forward_Ok outs
        \<and> list_all (value_ok (mem host_world)) (take ET_FLUTTER_MAX_OUTPUTS outs)
        \<and> list_all id (take (2 * tensor_count (take ET_FLUTTER_MAX_OUTPUTS outs)) (malloc_script host_world))
        \<and> length outs = 3
        \<and> \<not> isTensor (outs ! 0) \<and> isTensor (outs ! 1) \<and> \<not> isTensor (outs ! 2)"
    using one_input_converted m e a
    by (intro exI [of _ "[?d]"] exI [of _ ?outs]) simp
  with p res show ?thesis
    by blast
qed

section \<open>Failure of a struct allocation during output conversion\<close>

lemma convert_outputs_struct_allocation_null:
  assumes ok: "list_all (value_ok (mem w)) pre"
    and good: "list_all id (take (2 * tensor_count pre) (malloc_script w))"
    and bad: "drop (2 * tensor_count pre) (malloc_script w) = False # rest"
    and i: "i + length pre < ET_FLUTTER_MAX_OUTPUTS"
    and inv: "cleanup_inv h0 (outputs out) i (mem w)"
  shows "\<exists>out' w'. convert_outputs (pre @ EValue_Tensor t # post) i out w = Some (out', w')
     \<and> code (error out') = ET_FLUTTER_ERROR_MEMORY \<and> num_outputs out' = 0
     \<and> same_blocks h0 (mem w') \<and> engine_calls w' = engine_calls w"
  using assms
proof (induction pre arbitrary: i out w)
  case Nil
  then have "malloc_script w = False # rest" and i: "i < ET_FLUTTER_MAX_OUTPUTS"
    by (simp_all add: tensor_count_def)
  then have cf: "convert_from_executorch_tensor t w = Some (None, w\<lparr>malloc_script := rest\<rparr>)"
    by (simp add: struct_allocation_null)
  have "mem (w\<lparr>malloc_script := rest\<rparr>) = mem w \<or> mem (w\<lparr>malloc_script := rest\<rparr>) = mem w @ [None]"
    by simp
  from cleanup_inv_failed [OF Nil.prems(5) this] obtain h where
    fr: "free_allocated ((outputs out)(i := None)) [0..<i] (mem (w\<lparr>malloc_script := rest\<rparr>)) = Some h"
    and sb: "same_blocks h0 h"
    by blast
  show ?case
    using convert_outputs_tensor_failed [OF i cf fr, of post] sb
    by (simp add: set_error_fields_code del: convert_outputs.simps)
next
  case (Cons v pre)
  from Cons.prems(4) have i: "i < ET_FLUTTER_MAX_OUTPUTS" and i': "Suc i + length pre < ET_FLUTTER_MAX_OUTPUTS"
    by simp_all
  from Cons.prems(1) have okv: "value_ok (mem w) v" and okp: "list_all (value_ok (mem w)) pre"
    by simp_all
  show ?case
  proof (cases "isTensor v")
    case False
    then have tc: "tensor_count (v # pre) = tensor_count pre"
      by (simp add: tensor_count_def)
    have eq: "convert_outputs ((v # pre) @ EValue_Tensor t # post) i out w
        = convert_outputs (pre @ EValue_Tensor t # post) (Suc i) out w"
      using False i by (simp add: convert_outputs_skip del: convert_outputs.simps)
    from Cons.IH [OF okp Cons.prems(2,3) [unfolded tc] i' cleanup_inv_step_skip [OF Cons.prems(5) i]]
    show ?thesis unfolding eq .
  next
    case True
    then obtain u where v: "v = EValue_Tensor u"
      using isTensor_iff by blast
    have tc: "tensor_count (v # pre) = Suc (tensor_count pre)"
      using True by (simp add: tensor_count_def)
    let ?c = "tensor_count pre"
    have g: "list_all id (take (2 + 2 * ?c) (malloc_script w))"
      and b: "drop (2 + 2 * ?c) (malloc_script w) = False # rest"
      using Cons.prems(2,3) unfolding tc by (simp_all add: id_def)
    have "take 2 (malloc_script w) = take 2 (take (2 + 2 * ?c) (malloc_script w))"
      by (simp add: min_def)
    then have g2: "list_all id (take 2 (malloc_script w))"
      using g by (metis list_all_iff in_set_takeD)
    from okv v have "native_ok (mem w) u" by simp
    from native_ok_converts [OF this g2] obtain w1 st bs where
      cf: "convert_from_executorch_tensor u w = Some (Some (length (mem w)), w1)"
      and sc: "malloc_script w1 = tl (tl (malloc_script w))"
      and ec: "engine_calls w1 = engine_calls w"
      and m: "mem w1 = mem w @ [Some (TensorStruct st), Some (Bytes bs)]"
      and d: "data st = Some (Suc (length (mem w)))"
      by blast
    have sc': "malloc_script w1 = drop 2 (malloc_script w)"
      unfolding sc by (simp add: drop_Suc numeral_2_eq_2 drop_tl tl_drop)
    have g1: "list_all id (take (2 * ?c) (malloc_script w1))"
    proof -
      have "take (2 * ?c) (drop 2 (malloc_script w)) = drop 2 (take (2 + 2 * ?c) (malloc_script w))"
        by (simp add: drop_take)
      then show ?thesis
        unfolding sc' using g by (metis list_all_iff in_set_dropD)
    qed
    have b1: "drop (2 * ?c) (malloc_script w1) = False # rest"
      unfolding sc' using b by (simp add: add.commute)
    have ok1: "list_all (value_ok (mem w1)) pre"
      using okp unfolding m list_all_iff by (auto intro: value_ok_frame)
    let ?out1 = "out\<lparr>outputs := (outputs out)(i := Some (length (mem w)))\<rparr>"
    have inv1: "cleanup_inv h0 (outputs ?out1) (Suc i) (mem w1)"
      using cleanup_inv_step_tensor [OF Cons.prems(5) i d, of bs] m by simp
    have eq: "convert_outputs ((v # pre) @ EValue_Tensor t # post) i out w
        = convert_outputs (pre @ EValue_Tensor t # post) (Suc i) ?out1 w1"
      unfolding v using convert_outputs_tensor_ok [OF i cf] by simp
    from Cons.IH [OF ok1 g1 b1 i' inv1] ec show ?thesis
      unfolding eq by simp
  qed
qed

text \<open>
  C2. Let the engine return the values \<open>outs\<close>, let output \<open>k\<close> (one of the first 16)
  be a tensor, let the outputs before it be convertible, and let the allocations made for
  them succeed: each tensor before \<open>k\<close> takes two calls of \<^verbatim>\<open>malloc\<close>, one for the
  struct and one for the data, so the struct of output \<open>k\<close> is call number
  \<open>2 * tensor_count (take k outs)\<close>. If that call returns null, then
  \<^verbatim>\<open>et_flutter_forward\<close> returns the code MEMORY with \<^verbatim>\<open>num_outputs\<close> 0, and every
  address of the memory holds what it held before the call: the structs and data buffers of
  the outputs before \<open>k\<close> have been freed, and nothing else was.
\<close>

theorem forward_struct_allocation_failure:
  assumes "0 < sint (num_inputs inp)"
    and "convert_inputs inp [0..<nat (sint (num_inputs inp))] [] = Some (Inr ins)"
    and "module model_data ins (mem w) = Forward_Ok outs"
    and k: "k < length outs" "k < ET_FLUTTER_MAX_OUTPUTS" "isTensor (outs ! k)"
    and earlier: "list_all (value_ok (mem w)) (take k outs)"
    and allocated: "list_all id (take (2 * tensor_count (take k outs)) (malloc_script w))"
    and null: "drop (2 * tensor_count (take k outs)) (malloc_script w) = False # rest"
  shows "\<exists>out w'. et_flutter_forward (Some model_data) (Some inp) w = Some (out, w')
      \<and> code (error out) = ET_FLUTTER_ERROR_MEMORY
      \<and> num_outputs out = 0
      \<and> (\<forall>a. lookup (mem w') a = lookup (mem w) a)
      \<and> engine_calls w' = Suc (engine_calls w)"
proof -
  let ?out0 = "zero_output\<lparr>num_outputs := of_nat (length outs)\<rparr>"
  let ?w0 = "w\<lparr>engine_calls := Suc (engine_calls w)\<rparr>"
  from k(3) obtain t where t: "outs ! k = EValue_Tensor t"
    using isTensor_iff by blast
  have split: "outs = take k outs @ EValue_Tensor t # drop (Suc k) outs"
    using id_take_nth_drop [OF k(1)] t by simp
  have len: "0 + length (take k outs) < ET_FLUTTER_MAX_OUTPUTS"
    using k(1,2) by simp
  have inv: "cleanup_inv (mem w) (outputs ?out0) 0 (mem ?w0)"
    using cleanup_inv_initial [of "mem w"] by simp
  have "\<exists>out' w'. convert_outputs (take k outs @ EValue_Tensor t # drop (Suc k) outs) 0 ?out0 ?w0
          = Some (out', w')
     \<and> code (error out') = ET_FLUTTER_ERROR_MEMORY \<and> num_outputs out' = 0
     \<and> same_blocks (mem w) (mem w') \<and> engine_calls w' = engine_calls ?w0"
    by (rule convert_outputs_struct_allocation_null [OF _ _ _ len inv])
      (use earlier allocated null in simp_all)
  then obtain out' w' where
    "convert_outputs outs 0 ?out0 ?w0 = Some (out', w')"
    "code (error out') = ET_FLUTTER_ERROR_MEMORY" "num_outputs out' = 0"
    "same_blocks (mem w) (mem w')" "engine_calls w' = engine_calls ?w0"
    using split by metis
  then show ?thesis
    unfolding forward_conversion [OF assms(1-3)] by (simp add: same_blocks_def)
qed

theorem forward_struct_allocation_failure_witness:
  "0 < sint (num_inputs one_input)
   \<and> (\<exists>ins outs. convert_inputs one_input [0..<nat (sint (num_inputs one_input))] [] = Some (Inr ins)
        \<and> module (repeating_model 2) ins (mem (host_world\<lparr>malloc_script := [True, True, False]\<rparr>))
            = Forward_Ok outs
        \<and> length outs = 2 \<and> isTensor (outs ! 1)
        \<and> list_all (value_ok (mem (host_world\<lparr>malloc_script := [True, True, False]\<rparr>))) (take 1 outs)
        \<and> tensor_count (take 1 outs) = 1)
   \<and> list_all id (take 2 (malloc_script (host_world\<lparr>malloc_script := [True, True, False]\<rparr>)))
   \<and> drop 2 (malloc_script (host_world\<lparr>malloc_script := [True, True, False]\<rparr>)) = [False]
   \<and> (\<exists>out w'. et_flutter_forward (Some (repeating_model 2)) (Some one_input)
                   (host_world\<lparr>malloc_script := [True, True, False]\<rparr>) = Some (out, w')
        \<and> code (error out) = ET_FLUTTER_ERROR_MEMORY
        \<and> num_outputs out = 0
        \<and> (\<forall>a. lookup (mem w') a = lookup (mem (host_world\<lparr>malloc_script := [True, True, False]\<rparr>)) a))"
proof -
  let ?w = "host_world\<lparr>malloc_script := [True, True, False]\<rparr>"
  let ?d = "EValue_Tensor \<lparr>scalar_type = ScalarType_Byte, sizes = [4],
                                 const_data_ptr = Some 0, impl_alive = False\<rparr>"
  let ?t = "EValue_Tensor engine_tensor"
  have p: "0 < sint (num_inputs one_input)"
    by (simp add: one_input_def)
  have m: "module (repeating_model 2) [?d] (mem ?w) = Forward_Ok [?t, ?t]"
    by (simp add: repeating_model_def numeral_2_eq_2)
  have k: "1 < length [?t, ?t]" "1 < ET_FLUTTER_MAX_OUTPUTS" "isTensor ([?t, ?t] ! 1)"
    by simp_all
  have tc: "tensor_count (take 1 [?t, ?t]) = 1"
    by (simp add: tensor_count_def)
  have e: "list_all (value_ok (mem ?w)) (take 1 [?t, ?t])"
    using engine_tensor_ok [of "[True, True, False]"] by simp
  have a: "list_all id (take (2 * tensor_count (take 1 [?t, ?t])) (malloc_script ?w))"
    unfolding tc by simp
  have n: "drop (2 * tensor_count (take 1 [?t, ?t])) (malloc_script ?w) = False # []"
    unfolding tc by simp
  note r = forward_struct_allocation_failure [OF p one_input_converted m k e a n]
  have a': "list_all id (take 2 (malloc_script ?w))" and n': "drop 2 (malloc_script ?w) = [False]"
    by simp_all
  have "\<exists>ins outs. convert_inputs one_input [0..<nat (sint (num_inputs one_input))] [] = Some (Inr ins)
        \<and> module (repeating_model 2) ins (mem ?w) = Forward_Ok outs
        \<and> length outs = 2 \<and> isTensor (outs ! 1)
        \<and> list_all (value_ok (mem ?w)) (take 1 outs)
        \<and> tensor_count (take 1 outs) = 1"
    using one_input_converted m k(3) e tc
    by (intro exI [of _ "[?d]"] exI [of _ "[?t, ?t]"]) simp
  with p a' n' r show ?thesis
    by blast
qed

section \<open>Properties of the tensor copy\<close>

lemma validate_success_data:
  assumes "et_flutter_tensor_validate (Some src) err = Some (ET_FLUTTER_SUCCESS, err')"
  shows "data src \<noteq> None"
proof
  assume "data src = None"
  then have "validate_checks_in_order (Some src) \<noteq> ET_FLUTTER_SUCCESS"
    by (simp add: validate_checks_in_order_def)
  moreover have "map_option fst (et_flutter_tensor_validate (Some src) err) = Some ET_FLUTTER_SUCCESS"
    using assms by simp
  ultimately show False
    unfolding validate_code by simp
qed

lemma strncpy_c_str:
  assumes "length dst = Suc n"
  shows "c_str ((strncpy dst src n)[n := NUL]) = take n (c_str src)"
proof -
  let ?s = "take n (c_str src)"
  have nn: "NUL \<notin> set ?s"
    using c_str_no_NUL [of src] by (auto dest: in_set_takeD)
  have "(strncpy dst src n) = ?s @ replicate (n - length ?s) NUL @ drop n dst"
    by (simp add: strncpy_def Let_def)
  moreover obtain c where d: "drop n dst = [c]"
    using assms by (cases "drop n dst") (auto simp add: drop_eq_Nil Suc_le_eq dest: arg_cong [where f = length])
  ultimately have "(strncpy dst src n)[n := NUL] = ?s @ replicate (n - length ?s) NUL @ [NUL]"
    by (simp add: list_update_append)
  also have "\<dots> = ?s @ NUL # replicate (n - length ?s) NUL"
    by (simp add: replicate_append_same)
  finally show ?thesis
    using nn by (simp add: c_str_terminated)
qed

lemma memcpy_defined:
  assumes "lookup h a = Some (Bytes old)" and "s \<noteq> Some a"
    and "read_bytes h s n = Some bs" and "n \<le> length old"
  shows "memcpy h (Some a) s n = Some (h[a := Some (Bytes (bs @ drop n old))])"
    and "read_bytes (h[a := Some (Bytes (bs @ drop n old))]) (Some a) n = Some bs"
proof -
  have len: "length bs = n"
    using assms(3) by (auto simp add: read_bytes_def split: option.splits block.splits if_splits)
  have a: "a < length h"
    using assms(1) by (simp add: lookup_def split: if_splits)
  show "memcpy h (Some a) s n = Some (h[a := Some (Bytes (bs @ drop n old))])"
    using assms len by (auto simp add: memcpy_def write_bytes_def)
  show "read_bytes (h[a := Some (Bytes (bs @ drop n old))]) (Some a) n = Some bs"
    using a len by (simp add: read_bytes_def lookup_def)
qed

text \<open>
  C10. \<^verbatim>\<open>et_flutter_tensor_copy\<close> validates the source only. For every source that
  validation accepts and every destination struct \<open>dst\<close> (nothing is asked of its
  fields), the result struct \<open>dst'\<close> has the shape, dtype and \<^verbatim>\<open>data_size\<close> of the
  source, the data pointer of the destination, and the source's name (at most 63 bytes).
  When \<^verbatim>\<open>dst->data\<close> is null the call returns SUCCESS and the memory unchanged: no
  byte is copied. When \<^verbatim>\<open>dst->data\<close> points to a buffer of at least \<^verbatim>\<open>data_size\<close>
  bytes, other than the source's, and the source's buffer holds \<^verbatim>\<open>data_size\<close> bytes
  \<open>bs\<close>, the call returns SUCCESS and the memory in which the destination buffer starts
  with \<open>bs\<close> and every other block is untouched. For every destination pointer that is
  not null the call is the \<^verbatim>\<open>memcpy\<close> of \<^verbatim>\<open>data_size\<close> bytes, which C leaves
  undefined when the destination buffer is too small.
\<close>

theorem tensor_copy_checks_source_only:
  assumes "et_flutter_tensor_validate (Some src) err = Some (ET_FLUTTER_SUCCESS, err')"
  shows "\<exists>dst'.
      shape dst' = shape src \<and> dtype dst' = dtype src \<and> data_size dst' = data_size src
    \<and> data dst' = data dst
    \<and> (length (name dst) = ET_FLUTTER_TENSOR_NAME_MAX_LEN \<longrightarrow>
          c_str (name dst') = take (ET_FLUTTER_TENSOR_NAME_MAX_LEN - 1) (c_str (name src)))
    \<and> (data dst = None \<longrightarrow>
         et_flutter_tensor_copy (Some src) (Some dst) err h
           = Some (ET_FLUTTER_SUCCESS, Some dst', et_flutter_clear_error err', h))
    \<and> (\<forall>a old bs.
          data dst = Some a \<and> data src \<noteq> Some a \<and> lookup h a = Some (Bytes old)
          \<and> unat (data_size src) \<le> length old
          \<and> read_bytes h (data src) (unat (data_size src)) = Some bs \<longrightarrow>
            et_flutter_tensor_copy (Some src) (Some dst) err h
              = Some (ET_FLUTTER_SUCCESS, Some dst', et_flutter_clear_error err',
                      h[a := Some (Bytes (bs @ drop (unat (data_size src)) old))])
          \<and> read_bytes (h[a := Some (Bytes (bs @ drop (unat (data_size src)) old))])
               (data dst) (unat (data_size src)) = Some bs)
    \<and> (data dst \<noteq> None \<longrightarrow>
         et_flutter_tensor_copy (Some src) (Some dst) err h
           = map_option (\<lambda>h1. (ET_FLUTTER_SUCCESS, Some dst', et_flutter_clear_error err', h1))
               (memcpy h (data dst) (data src) (unat (data_size src))))"
proof -
  let ?n = "unat (data_size src)"
  let ?d1 = "dst\<lparr>shape := shape src, dtype := dtype src, data_size := data_size src\<rparr>"
  let ?d2 = "if c_str (name src) \<noteq> []
             then ?d1\<lparr>name := (strncpy (name ?d1) (name src) (ET_FLUTTER_TENSOR_NAME_MAX_LEN - 1))
                                          [ET_FLUTTER_TENSOR_NAME_MAX_LEN - 1 := NUL]\<rparr>
             else ?d1\<lparr>name := (name ?d1)[0 := NUL]\<rparr>"
  have sd: "data src \<noteq> None"
    using assms by (rule validate_success_data)
  have a: "data dst = None \<longrightarrow>
         et_flutter_tensor_copy (Some src) (Some dst) err h
           = Some (ET_FLUTTER_SUCCESS, Some ?d2, et_flutter_clear_error err', h)"
    using assms by (simp add: et_flutter_tensor_copy_def Let_def)
  have b: "et_flutter_tensor_copy (Some src) (Some dst) err h
           = map_option (\<lambda>h1. (ET_FLUTTER_SUCCESS, Some ?d2, et_flutter_clear_error err', h1))
               (memcpy h (data dst) (data src) ?n)"
    if "data dst \<noteq> None"
    using assms sd that
    by (cases "memcpy h (data dst) (data src) ?n")
      (simp_all add: et_flutter_tensor_copy_def Let_def)
  have c: "et_flutter_tensor_copy (Some src) (Some dst) err h
              = Some (ET_FLUTTER_SUCCESS, Some ?d2, et_flutter_clear_error err',
                      h[a := Some (Bytes (bs @ drop ?n old))])
          \<and> read_bytes (h[a := Some (Bytes (bs @ drop ?n old))]) (data dst) ?n = Some bs"
    if "data dst = Some a \<and> data src \<noteq> Some a \<and> lookup h a = Some (Bytes old)
          \<and> ?n \<le> length old \<and> read_bytes h (data src) ?n = Some bs" for a old bs
  proof -
    from that have d: "data dst = Some a" and ne: "data src \<noteq> Some a"
      and l: "lookup h a = Some (Bytes old)" and le: "?n \<le> length old"
      and rd: "read_bytes h (data src) ?n = Some bs"
      by simp_all
    note mc = memcpy_defined [OF l ne rd le]
    have "data dst \<noteq> None"
      using d by simp
    from b [OF this] mc show ?thesis
      unfolding d by simp
  qed
  have f: "shape ?d2 = shape src \<and> dtype ?d2 = dtype src \<and> data_size ?d2 = data_size src
    \<and> data ?d2 = data dst"
    by simp
  have n: "c_str (name ?d2) = take (ET_FLUTTER_TENSOR_NAME_MAX_LEN - 1) (c_str (name src))"
    if "length (name dst) = ET_FLUTTER_TENSOR_NAME_MAX_LEN"
  proof (cases "c_str (name src) = []")
    case True
    then show ?thesis by (simp add: c_str_update_0)
  next
    case False
    have "length (name dst) = Suc 63" using that by simp
    from strncpy_c_str [OF this, of "name src"] False show ?thesis by simp
  qed
  show ?thesis
    using a b c f n by (intro exI [of _ ?d2]) blast
qed

lemma byte_tensor_valid:
  "et_flutter_tensor_validate (Some byte_tensor) None = Some (ET_FLUTTER_SUCCESS, None)"
  by (simp add: et_flutter_tensor_validate_def byte_tensor_def et_flutter_tensor_data_size_def
      et_flutter_dtype_size_def et_flutter_clear_error_def)

theorem tensor_copy_checks_source_only_witness:
  "et_flutter_tensor_validate (Some byte_tensor) None = Some (ET_FLUTTER_SUCCESS, None)
   \<and> data zero_tensor = None
   \<and> length (name zero_tensor) = ET_FLUTTER_TENSOR_NAME_MAX_LEN
   \<and> read_bytes (mem copy_world) (data byte_tensor) (unat (data_size byte_tensor)) = Some [1, 2, 3, 4]
   \<and> lookup (mem copy_world) 1 = Some (Bytes [0, 0, 0, 0])
   \<and> data byte_tensor \<noteq> Some 1
   \<and> unat (data_size byte_tensor) \<le> length [0 :: byte, 0, 0, 0]
   \<and> (\<exists>dst'. et_flutter_tensor_copy (Some byte_tensor) (Some zero_tensor) None (mem copy_world)
                = Some (ET_FLUTTER_SUCCESS, Some dst', None, mem copy_world)
          \<and> shape dst' = shape byte_tensor \<and> dtype dst' = dtype byte_tensor
          \<and> data_size dst' = data_size byte_tensor \<and> data dst' = None
          \<and> c_str (name dst') = [])
   \<and> (\<exists>dst'. et_flutter_tensor_copy (Some byte_tensor) (Some (zero_tensor\<lparr>data := Some 1\<rparr>)) None
                (mem copy_world)
                = Some (ET_FLUTTER_SUCCESS, Some dst', None,
                        [Some (Bytes [1, 2, 3, 4]), Some (Bytes [1, 2, 3, 4])])
          \<and> shape dst' = shape byte_tensor \<and> dtype dst' = dtype byte_tensor
          \<and> data_size dst' = data_size byte_tensor \<and> data dst' = Some 1
          \<and> c_str (name dst') = [])"
proof -
  let ?h = "mem copy_world"
  let ?n = "unat (data_size byte_tensor)"
  let ?dst = "zero_tensor\<lparr>data := Some 1\<rparr>"
  have d: "data zero_tensor = None" and l: "length (name zero_tensor) = ET_FLUTTER_TENSOR_NAME_MAX_LEN"
    and d1: "data ?dst = Some 1" and l1: "length (name ?dst) = ET_FLUTTER_TENSOR_NAME_MAX_LEN"
    by (simp_all add: zero_tensor_def)
  have r: "read_bytes ?h (data byte_tensor) ?n = Some [1, 2, 3, 4]"
    by (simp add: copy_world_def byte_tensor_def read_bytes_def lookup_def)
  have k: "lookup ?h 1 = Some (Bytes [0, 0, 0, 0])"
    by (simp add: copy_world_def lookup_def)
  have ne: "data byte_tensor \<noteq> Some 1"
    by (simp add: byte_tensor_def)
  have le: "?n \<le> length [0 :: byte, 0, 0, 0]"
    by (simp add: byte_tensor_def)
  have n: "c_str (name byte_tensor) = []"
    by (simp add: byte_tensor_def c_str_def)
  have upd: "?h[1 := Some (Bytes ([1, 2, 3, 4] @ drop ?n [0, 0, 0, 0]))]
               = [Some (Bytes [1, 2, 3, 4]), Some (Bytes [1, 2, 3, 4])]"
    by (simp add: copy_world_def byte_tensor_def)
  from tensor_copy_checks_source_only [OF byte_tensor_valid, of zero_tensor ?h]
  obtain dst' where
    "data zero_tensor = None \<longrightarrow>
       et_flutter_tensor_copy (Some byte_tensor) (Some zero_tensor) None ?h
         = Some (ET_FLUTTER_SUCCESS, Some dst', et_flutter_clear_error None, ?h)"
    and "shape dst' = shape byte_tensor" "dtype dst' = dtype byte_tensor"
      "data_size dst' = data_size byte_tensor" "data dst' = data zero_tensor"
    and "length (name zero_tensor) = ET_FLUTTER_TENSOR_NAME_MAX_LEN \<longrightarrow>
          c_str (name dst') = take (ET_FLUTTER_TENSOR_NAME_MAX_LEN - 1) (c_str (name byte_tensor))"
    by (elim exE conjE) (rule that, assumption+)
  with d l n have null: "\<exists>dst'. et_flutter_tensor_copy (Some byte_tensor) (Some zero_tensor) None ?h
                = Some (ET_FLUTTER_SUCCESS, Some dst', None, ?h)
          \<and> shape dst' = shape byte_tensor \<and> dtype dst' = dtype byte_tensor
          \<and> data_size dst' = data_size byte_tensor \<and> data dst' = None
          \<and> c_str (name dst') = []"
    by (intro exI [of _ dst']) (simp add: et_flutter_clear_error_def)
  from tensor_copy_checks_source_only [OF byte_tensor_valid, of ?dst ?h]
  obtain dst'' where
    cp: "\<forall>a old bs.
          data ?dst = Some a \<and> data byte_tensor \<noteq> Some a \<and> lookup ?h a = Some (Bytes old)
          \<and> ?n \<le> length old \<and> read_bytes ?h (data byte_tensor) ?n = Some bs \<longrightarrow>
            et_flutter_tensor_copy (Some byte_tensor) (Some ?dst) None ?h
              = Some (ET_FLUTTER_SUCCESS, Some dst'', et_flutter_clear_error None,
                      ?h[a := Some (Bytes (bs @ drop ?n old))])
          \<and> read_bytes (?h[a := Some (Bytes (bs @ drop ?n old))]) (data ?dst) ?n = Some bs"
    and fs: "shape dst'' = shape byte_tensor" "dtype dst'' = dtype byte_tensor"
      "data_size dst'' = data_size byte_tensor" "data dst'' = data ?dst"
    and nm: "length (name ?dst) = ET_FLUTTER_TENSOR_NAME_MAX_LEN \<longrightarrow>
          c_str (name dst'') = take (ET_FLUTTER_TENSOR_NAME_MAX_LEN - 1) (c_str (name byte_tensor))"
    by (elim exE conjE) (rule that, assumption+)
  from cp [rule_format, of 1 "[0, 0, 0, 0]" "[1, 2, 3, 4]"] d1 ne k le r
  have "et_flutter_tensor_copy (Some byte_tensor) (Some ?dst) None ?h
          = Some (ET_FLUTTER_SUCCESS, Some dst'', et_flutter_clear_error None,
                  ?h[1 := Some (Bytes ([1, 2, 3, 4] @ drop ?n [0, 0, 0, 0]))])"
    by blast
  then have "et_flutter_tensor_copy (Some byte_tensor) (Some ?dst) None ?h
          = Some (ET_FLUTTER_SUCCESS, Some dst'', None,
                  [Some (Bytes [1, 2, 3, 4]), Some (Bytes [1, 2, 3, 4])])"
    unfolding upd by (simp add: et_flutter_clear_error_def)
  with fs nm d1 l1 n have copied: "\<exists>dst'. et_flutter_tensor_copy (Some byte_tensor) (Some ?dst) None ?h
                = Some (ET_FLUTTER_SUCCESS, Some dst', None,
                        [Some (Bytes [1, 2, 3, 4]), Some (Bytes [1, 2, 3, 4])])
          \<and> shape dst' = shape byte_tensor \<and> dtype dst' = dtype byte_tensor
          \<and> data_size dst' = data_size byte_tensor \<and> data dst' = Some 1
          \<and> c_str (name dst') = []"
    by (intro exI [of _ dst'']) simp
  from byte_tensor_valid d l r k ne le null copied show ?thesis
    by blast
qed

section \<open>Round trip through the engine's tensor\<close>

text \<open>
  C5. The claim asks that a valid tensor converted with \<^verbatim>\<open>convert_to_executorch_tensor\<close>
  and back with \<^verbatim>\<open>convert_from_executorch_tensor\<close> comes back with its shape, dtype,
  \<^verbatim>\<open>data_size\<close> and bytes. The code does not deliver it: the handle that
  \<^verbatim>\<open>convert_to_executorch_tensor\<close> returns is never alive, for any argument, since it
  refers to the function's own locals. For the valid four-byte tensor the conversion
  succeeds with a dead handle, the conversion back reads through it as soon as its struct is
  allocated, which is undefined, and so is the round trip; the round trip yields a
  descriptor for no tensor and no memory at all.
\<close>

theorem round_trip_reads_dead_tensor:
  "et_flutter_tensor_validate (Some byte_tensor) None = Some (ET_FLUTTER_SUCCESS, None)
   \<and> read_bytes (mem host_world) (data byte_tensor) (unat (data_size byte_tensor)) = Some [1, 2, 3, 4]
   \<and> convert_to_executorch_tensor (Some byte_tensor)
       = Some (Inr \<lparr>scalar_type = ScalarType_Byte, sizes = [4], const_data_ptr = Some 0,
                    impl_alive = False\<rparr>)
   \<and> convert_from_executorch_tensor
         \<lparr>scalar_type = ScalarType_Byte, sizes = [4], const_data_ptr = Some 0, impl_alive = False\<rparr>
         host_world = None
   \<and> round_trip byte_tensor host_world = None
   \<and> map_option (map_sum id impl_alive) (convert_to_executorch_tensor x) \<noteq> Some (Inr True)
   \<and> round_trip t w = None"
proof -
  have r: "read_bytes (mem host_world) (data byte_tensor) (unat (data_size byte_tensor)) = Some [1, 2, 3, 4]"
    by (simp add: host_world_def byte_tensor_def read_bytes_def lookup_def)
  have fwd: "convert_to_executorch_tensor (Some byte_tensor)
       = Some (Inr \<lparr>scalar_type = ScalarType_Byte, sizes = [4], const_data_ptr = Some 0,
                    impl_alive = False\<rparr>)"
    by (simp add: byte_tensor_def convert_to_executorch_tensor_def scalar_type_of_dtype_def)
  have dead: "convert_from_executorch_tensor n v \<noteq> Some (Some p, v')" if "\<not> impl_alive n" for n v p v'
    using that by (cases "malloc (TensorStruct zero_tensor) v")
      (auto simp add: convert_from_executorch_tensor_def split: option.splits)
  have undef: "convert_from_executorch_tensor
         \<lparr>scalar_type = ScalarType_Byte, sizes = [4], const_data_ptr = Some 0, impl_alive = False\<rparr>
         host_world = None"
    by (simp add: convert_from_executorch_tensor_def malloc_def host_world_def)
  have never: "map_option (map_sum id impl_alive) (convert_to_executorch_tensor y) \<noteq> Some (Inr True)" for y
    by (auto simp add: convert_to_executorch_tensor_def split: option.splits if_splits Option.bind_splits)
  have rt: "round_trip u v = None" for u v
  proof (cases "convert_to_executorch_tensor (Some u)")
    case None
    then show ?thesis by (simp add: round_trip_def)
  next
    case (Some res)
    show ?thesis
    proof (cases res)
      case (Inl e)
      with Some show ?thesis by (simp add: round_trip_def)
    next
      case (Inr n)
      with Some never [of "Some u"] have "\<not> impl_alive n"
        by simp
      from dead [OF this] have "\<And>p v'. convert_from_executorch_tensor n v \<noteq> Some (Some p, v')" .
      then show ?thesis
        using Some Inr by (auto simp add: round_trip_def split: option.splits prod.splits)
    qed
  qed
  from byte_tensor_valid r fwd undef never rt show ?thesis
    by blast
qed

end
